theory Spec2Isabelle
  imports Main "HOL-Library.Word"
begin

unbundle bit_operations_syntax

section \<open>Syntax trees\<close>

text \<open>
  The visitors read and build ESTree nodes, which in JavaScript are untyped objects
  told apart by their \<open>type\<close> tag. One datatype holds the kinds the two visitors
  touch. \<open>JSUndefined\<close> and \<open>JSFalse\<close> stand for the JavaScript values
  \<open>undefined\<close> and \<open>false\<close> where the source hands one of them to a builder in the
  place of a node.
\<close>

datatype literal = LString string | LNumber int | LBool bool

datatype node =
    Identifier string
  | Literal literal
  | JSUndefined
  | JSFalse
  | CallExpression node "node list"
  | MemberExpression node node bool
  | SequenceExpression "node list"
  | AssignmentExpression string node node
  | ArrowFunctionExpression "node list" node bool
  | ArrayExpression "node list"
  | SpreadElement node
  | ObjectPattern "node list"
  | ArrayPattern "node list"
  | Property node node
  | AssignmentPattern node node
  | RestElement node
  | ExpressionStatement node
  | VariableDeclaration string node node
  | BlockStatement "node list"

text \<open>
  Modelled from the spec: the builders module (\<open>#compiler/builders\<close>, imported as
  \<open>b\<close>) is not among the sources. The spec calls it the AST Builder, which
  "constructs output-language expression/statement nodes (calls, arrow functions,
  member access, sequences, blocks, literals)". Each builder call is represented by
  the node it is asked for, with the arguments exactly as the source passes them.
\<close>

definition b_id :: "string \<Rightarrow> node" where
  "b_id name = Identifier name"

definition b_literal :: "literal \<Rightarrow> node" where
  "b_literal v = Literal v"

definition b_true :: node where
  "b_true = Literal (LBool True)"

definition b_call :: "node \<Rightarrow> node list \<Rightarrow> node" where
  "b_call callee args = CallExpression callee args"

definition b_call_s :: "string \<Rightarrow> node list \<Rightarrow> node" where
  "b_call_s callee args = b_call (b_id callee) args"

definition b_member :: "node \<Rightarrow> node \<Rightarrow> bool \<Rightarrow> node" where
  "b_member obj property computed = MemberExpression obj property computed"

definition b_sequence :: "node list \<Rightarrow> node" where
  "b_sequence expressions = SequenceExpression expressions"

definition b_assignment :: "string \<Rightarrow> node \<Rightarrow> node \<Rightarrow> node" where
  "b_assignment operator left right = AssignmentExpression operator left right"

definition b_arrow :: "node list \<Rightarrow> node \<Rightarrow> node" where
  "b_arrow params body = ArrowFunctionExpression params body False"

definition b_thunk :: "node \<Rightarrow> bool \<Rightarrow> node" where
  "b_thunk expression async = ArrowFunctionExpression [] expression async"

definition b_array :: "node list \<Rightarrow> node" where
  "b_array elements = ArrayExpression elements"

definition b_spread :: "node \<Rightarrow> node" where
  "b_spread argument = SpreadElement argument"

definition b_block :: "node list \<Rightarrow> node" where
  "b_block body = BlockStatement body"

definition b_stmt :: "node \<Rightarrow> node" where
  "b_stmt expression = ExpressionStatement expression"

definition b_var :: "node \<Rightarrow> node \<Rightarrow> node" where
  "b_var pattern init = VariableDeclaration ''var'' pattern init"

definition b_let :: "node \<Rightarrow> node \<Rightarrow> node" where
  "b_let pattern init = VariableDeclaration ''let'' pattern init"

section \<open>Template nodes, bindings and scopes\<close>

datatype attribute = AnimateDirective string | OtherAttribute string

datatype template_node =
    RegularElement "attribute list"
  | SvelteElement "attribute list"
  | Text string
  | Comment string
  | ExpressionTag node
  | OtherTemplateNode string

text \<open>
  A binding as scope analysis hands it over. The source reads
  \<open>binding.scope.function_depth\<close>; the declaring scope object is not needed
  otherwise, so the record keeps that depth in \<open>scope_function_depth\<close>.
  \<open>binding.node\<close> is an object, and the source puts such objects into a \<open>Set\<close>,
  which tells them apart by identity: \<open>node_ref\<close> is the identity of the node
  object, one per declaration, and \<open>binding_node\<close> is what the object holds.
\<close>

record binding =
  kind :: string
  reassigned :: bool
  node_ref :: nat
  binding_node :: node
  scope_function_depth :: nat

text \<open>
  Modelled from the spec: the \<open>Scope\<close> class (\<open>scope.js\<close>) is not among the
  sources. The spec: "hierarchical; has a parent, a set of declared bindings, and the
  ability to resolve a name by walking up". \<open>declarations\<close> is a JavaScript
  \<open>Map\<close>, iterated in insertion order, hence an association list.
\<close>

datatype scope =
  Scope (declarations: "(string \<times> binding) list") (parent: "scope option") (function_depth: nat)

fun scope_get :: "scope \<Rightarrow> string \<Rightarrow> binding option" where
  "scope_get (Scope ds p d) name =
     (case map_of ds name of
        Some bd \<Rightarrow> Some bd
      | None \<Rightarrow> (case p of None \<Rightarrow> None | Some ps \<Rightarrow> scope_get ps name))"

record expression_metadata =
  dependencies :: "binding list"
  has_await :: bool

text \<open>
  The metadata of an \<open>EachBlock\<close>. \<open>metadata_index\<close> is \<open>node.metadata.index\<close>,
  an identifier, kept by its name.
\<close>

record each_metadata =
  keyed :: bool
  is_controlled :: bool
  contains_group_binding :: bool
  metadata_index :: string
  transitive_deps :: "binding list"
  metadata_expression :: expression_metadata

text \<open>
  The \<open>EachBlock\<close> node. \<open>each_context\<close> is the source's \<open>node.context\<close> (the
  item pattern); \<open>body\<close> and \<open>fallback\<close> are the \<open>nodes\<close> of the two fragments.
\<close>

record each_block =
  expression :: node
  each_context :: "node option"
  index :: "string option"
  key :: "node option"
  body :: "template_node list"
  fallback :: "template_node list option"
  metadata :: each_metadata

section \<open>The flags of an each block\<close>

text \<open>
  Modelled from the spec: \<open>constants.js\<close> is not among the sources. The spec: "five
  independent boolean facets [...] encoded as set bits on an opaque integer". JavaScript's
  \<open>|\<close> and \<open>&\<close> work on 32-bit integers.
\<close>

definition EACH_ITEM_REACTIVE :: "32 word" where
  "EACH_ITEM_REACTIVE = 1"

definition EACH_INDEX_REACTIVE :: "32 word" where
  "EACH_INDEX_REACTIVE = push_bit 1 1"

definition EACH_IS_CONTROLLED :: "32 word" where
  "EACH_IS_CONTROLLED = push_bit 2 1"

definition EACH_IS_ANIMATED :: "32 word" where
  "EACH_IS_ANIMATED = push_bit 3 1"

definition EACH_ITEM_IMMUTABLE :: "32 word" where
  "EACH_ITEM_IMMUTABLE = push_bit 4 1"

definition key_is_item :: "each_block \<Rightarrow> bool" where
  "key_is_item node =
     (case key node of
        Some (Identifier k) \<Rightarrow>
          (case each_context node of Some (Identifier c) \<Rightarrow> c = k | _ \<Rightarrow> False)
      | _ \<Rightarrow> False)"

text \<open>The first loop over the dependencies: stop at the first store subscription.\<close>

fun uses_store_loop :: "binding list \<Rightarrow> bool" where
  "uses_store_loop [] = False"
| "uses_store_loop (bd # bds) =
     (if kind bd = ''store_sub'' then True else uses_store_loop bds)"

text \<open>
  The second loop: a dependency declared no shallower than the block's scope is skipped
  (\<open>continue\<close>); at the first shallower one the flag is set and the loop left
  (\<open>break\<close>) when the mode test holds, and otherwise the loop goes on.
\<close>

fun item_reactive_loop ::
  "nat \<Rightarrow> bool \<Rightarrow> bool \<Rightarrow> bool \<Rightarrow> binding list \<Rightarrow> 32 word \<Rightarrow> 32 word" where
  "item_reactive_loop depth runes kii us [] flags = flags"
| "item_reactive_loop depth runes kii us (bd # bds) flags =
     (if scope_function_depth bd \<ge> depth then item_reactive_loop depth runes kii us bds flags
      else if \<not> runes \<or> \<not> kii \<or> us then flags OR EACH_ITEM_REACTIVE
      else item_reactive_loop depth runes kii us bds flags)"

fun has_animate_directive :: "attribute list \<Rightarrow> bool" where
  "has_animate_directive [] = False"
| "has_animate_directive (AnimateDirective n # as) = True"
| "has_animate_directive (OtherAttribute n # as) = has_animate_directive as"

fun animated_child :: "template_node \<Rightarrow> bool" where
  "animated_child (RegularElement as) = has_animate_directive as"
| "animated_child (SvelteElement as) = has_animate_directive as"
| "animated_child _ = False"

text \<open>
  The flags, from \<open>let flags = 0\<close> to the last \<open>flags |= ...\<close>; \<open>scope\<close> is
  \<open>context.state.scope\<close> and \<open>runes\<close> is \<open>context.state.analysis.runes\<close>.
\<close>

definition each_flags :: "each_block \<Rightarrow> scope \<Rightarrow> bool \<Rightarrow> 32 word" where
  "each_flags node scope runes =
     (let flags0 = 0;
          flags1 = (if keyed (metadata node) \<and> index node \<noteq> None
                    then flags0 OR EACH_INDEX_REACTIVE else flags0);
          deps = dependencies (metadata_expression (metadata node));
          uses_store = uses_store_loop deps;
          flags2 = item_reactive_loop (function_depth scope) runes (key_is_item node)
                     uses_store deps flags1;
          flags3 = (if runes \<and> \<not> uses_store then flags2 OR EACH_ITEM_IMMUTABLE else flags2);
          flags4 = (if key node \<noteq> None \<and> list_ex animated_child (body node)
                    then flags3 OR EACH_IS_ANIMATED else flags3);
          flags5 = (if is_controlled (metadata node)
                    then flags4 OR EACH_IS_CONTROLLED else flags4)
      in flags5)"

section \<open>Binding strategies and the traversal state\<close>

text \<open>
  The strategies \<open>EachBlock\<close> installs are closures over two local variables,
  \<open>uses_index\<close> and \<open>key_uses_index\<close>, which they set when the visitor calls
  them. The model passes the two variables along explicitly.
\<close>

record uses =
  uses_index :: bool
  key_uses_index :: bool

record strategy =
  read :: "(node \<Rightarrow> uses \<Rightarrow> node \<times> uses) option"
  assign :: "(node \<Rightarrow> node \<Rightarrow> uses \<Rightarrow> node \<times> uses) option"
  mutate :: "(node \<Rightarrow> node \<Rightarrow> uses \<Rightarrow> node \<times> uses) option"

text \<open>
  The entries \<open>context.state.transform\<close> already holds were made by other visitor
  calls; JavaScript's lexical scoping keeps them from the two local variables of this
  call, so they are functions of the nodes alone. Copying the table
  (\<open>{ ...context.state.transform }\<close>) turns them into strategies that leave the two
  variables as they are.
\<close>

record transform_entry =
  outer_read :: "(node \<Rightarrow> node) option"
  outer_assign :: "(node \<Rightarrow> node \<Rightarrow> node) option"
  outer_mutate :: "(node \<Rightarrow> node \<Rightarrow> node) option"

definition copy_entry :: "transform_entry \<Rightarrow> strategy" where
  "copy_entry e =
     \<lparr> read = map_option (\<lambda>f n u. (f n, u)) (outer_read e),
       assign = map_option (\<lambda>f n v u. (f n v, u)) (outer_assign e),
       mutate = map_option (\<lambda>f n m u. (f n m, u)) (outer_mutate e) \<rparr>"

definition copy_transform :: "(string \<rightharpoonup> transform_entry) \<Rightarrow> (string \<rightharpoonup> strategy)" where
  "copy_transform t = (\<lambda>name. map_option copy_entry (t name))"

datatype template_item = TemplateComment | TemplateOther string

datatype path_node = EachBlockNode each_block | OtherPathNode string

record state =
  scope :: scope
  runes :: bool
  transform :: "string \<rightharpoonup> transform_entry"
  state_node :: node
  init :: "node list"
  template :: "template_item list"

record component_context =
  state :: state
  path :: "path_node list"

text \<open>What \<open>extract_paths\<close> returns: the inserts and the paths of a pattern.\<close>

record insert =
  insert_id :: node
  insert_value :: node

record destructured_path =
  path_node :: node
  is_rest :: bool
  has_default_value :: bool
  path_expression :: node
  update_expression :: node

text \<open>
  The collaborators of the visitor that are not among the sources, taken as
  parameters: the module variable \<open>dev\<close>; \<open>build_expression\<close>, called with the
  parent scope; \<open>context.visit\<close> on an expression and on a fragment (the latter gives
  the statements of the block it returns), called with a strategy table;
  \<open>extract_paths\<close>; \<open>get_value\<close>; the name generators \<open>scope.root.unique\<close> (which
  returns an identifier, kept by its name) and \<open>scope.generate\<close> (with the number of
  names this call has asked for already); and \<open>add_svelte_meta\<close>.

  The source renames each insert's identifier in place after \<open>extract_paths\<close> has
  returned. \<open>extract_paths\<close> therefore gets the names as its third argument, and the
  nodes it returns carry them wherever they share an insert's identifier.
\<close>

record env =
  dev :: bool
  build_expression :: "scope option \<Rightarrow> node \<Rightarrow> expression_metadata \<Rightarrow> node"
  visit :: "(string \<rightharpoonup> strategy) \<Rightarrow> node \<Rightarrow> uses \<Rightarrow> node \<times> uses"
  visit_fragment :: "(string \<rightharpoonup> strategy) \<Rightarrow> template_node list \<Rightarrow> uses \<Rightarrow> node list \<times> uses"
  extract_paths :: "node \<Rightarrow> node \<Rightarrow> (nat \<Rightarrow> string) \<Rightarrow> insert list \<times> destructured_path list"
  get_value :: "node \<Rightarrow> node"
  unique :: "string \<Rightarrow> string"
  generate :: "string \<Rightarrow> nat \<Rightarrow> string"
  add_svelte_meta :: "node \<Rightarrow> each_block \<Rightarrow> string \<Rightarrow> node"

section \<open>The steps of \<open>EachBlock\<close>\<close>

text \<open>
  Modelled from the spec: \<open>object\<close> (\<open>utils/ast.js\<close>) is not among the sources. The
  spec has the visitor ask whether the collection "is itself a store-subscription
  identifier/member access": the identifier at the root of a member chain, if any.
\<close>

fun object_of :: "node \<Rightarrow> node option" where
  "object_of (MemberExpression obj property computed) = object_of obj"
| "object_of (Identifier name) = Some (Identifier name)"
| "object_of _ = None"

text \<open>
  The \<open>name\<close> of a node. JavaScript gives \<open>undefined\<close> for a node without that
  field, which as a property key is the string \<open>undefined\<close>.
\<close>

fun name_of :: "node \<Rightarrow> string" where
  "name_of (Identifier name) = name"
| "name_of _ = ''undefined''"

fun is_identifier_or_member :: "node \<Rightarrow> bool" where
  "is_identifier_or_member (Identifier name) = True"
| "is_identifier_or_member (MemberExpression obj property computed) = True"
| "is_identifier_or_member _ = False"

definition store_to_invalidate_of :: "each_block \<Rightarrow> scope \<Rightarrow> string" where
  "store_to_invalidate_of node sc =
     (if is_identifier_or_member (expression node) then
        (case object_of (expression node) of
           Some ident \<Rightarrow>
             (case scope_get sc (name_of ident) of
                Some bd \<Rightarrow> (if kind bd = ''store_sub'' then name_of ident else [])
              | None \<Rightarrow> [])
         | None \<Rightarrow> [])
      else [])"

text \<open>\<open>context.state.scope.parent?.get(name) != null\<close>\<close>

definition parent_resolves :: "scope \<Rightarrow> string \<Rightarrow> bool" where
  "parent_resolves sc name =
     (case parent sc of None \<Rightarrow> False | Some p \<Rightarrow> scope_get p name \<noteq> None)"

text \<open>The loop over the block's own declarations, left at the first shadowing name.\<close>

fun collection_id_loop :: "env \<Rightarrow> scope \<Rightarrow> (string \<times> binding) list \<Rightarrow> node option" where
  "collection_id_loop e sc [] = None"
| "collection_id_loop e sc ((name, bd) # ds) =
     (if parent_resolves sc name then Some (Identifier (unique e ''$$array''))
      else collection_id_loop e sc ds)"

definition collection_id_of :: "env \<Rightarrow> scope \<Rightarrow> node option" where
  "collection_id_of e sc = collection_id_loop e sc (declarations sc)"

definition index_of :: "each_block \<Rightarrow> node" where
  "index_of node =
     (case index node of
        None \<Rightarrow> Identifier (metadata_index (metadata node))
      | Some i \<Rightarrow>
          (if contains_group_binding (metadata node)
           then Identifier (metadata_index (metadata node))
           else b_id i))"

definition item_of :: "each_block \<Rightarrow> node" where
  "item_of node =
     (case each_context node of Some (Identifier name) \<Rightarrow> Identifier name | _ \<Rightarrow> b_id ''$$item'')"

definition index_reactive :: "32 word \<Rightarrow> bool" where
  "index_reactive flags = (flags AND EACH_INDEX_REACTIVE \<noteq> 0)"

definition item_reactive :: "32 word \<Rightarrow> bool" where
  "item_reactive flags = (flags AND EACH_ITEM_REACTIVE \<noteq> 0)"

text \<open>The two strategies installed under the index name.\<close>

definition index_strategy :: "env \<Rightarrow> 32 word \<Rightarrow> strategy" where
  "index_strategy e flags =
     \<lparr> read = Some (\<lambda>n u. (if index_reactive flags then get_value e n else n,
                          u\<lparr>uses_index := True\<rparr>)),
       assign = None, mutate = None \<rparr>"

definition key_index_strategy :: strategy where
  "key_index_strategy =
     \<lparr> read = Some (\<lambda>n u. (n, u\<lparr>key_uses_index := True\<rparr>)), assign = None, mutate = None \<rparr>"

definition install_index ::
  "string option \<Rightarrow> strategy \<Rightarrow> (string \<rightharpoonup> strategy) \<Rightarrow> (string \<rightharpoonup> strategy)" where
  "install_index i s t = (case i of None \<Rightarrow> t | Some name \<Rightarrow> t(name \<mapsto> s))"

text \<open>
  \<open>transitive_deps\<close> is a JavaScript \<open>Set\<close> of identifier nodes: it holds node
  objects, compares them by identity, and gives them back in the order they went in.
  Adding the node of a binding that is in the set already changes nothing; the nodes of
  two bindings are two objects, also when the bindings have the same name. The members
  that come from bindings are kept with their identity.
\<close>

definition set_add :: "(nat \<times> node) list \<Rightarrow> nat \<times> node \<Rightarrow> (nat \<times> node) list" where
  "set_add xs x = (if fst x \<in> set (map fst xs) then xs else xs @ [x])"

definition set_add_bindings :: "(nat \<times> node) list \<Rightarrow> binding list \<Rightarrow> (nat \<times> node) list" where
  "set_add_bindings xs bds =
     fold (\<lambda>bd acc. set_add acc (node_ref bd, binding_node bd)) bds xs"

fun each_blocks_of :: "path_node list \<Rightarrow> each_block list" where
  "each_blocks_of [] = []"
| "each_blocks_of (EachBlockNode blk # ps) = blk # each_blocks_of ps"
| "each_blocks_of (OtherPathNode t # ps) = each_blocks_of ps"

definition collect_parent_each_blocks :: "component_context \<Rightarrow> each_block list" where
  "collect_parent_each_blocks ctx = each_blocks_of (path ctx)"

text \<open>
  The members of the set when it is read. The capture identifier, when there is one, is
  a node made by this call: it goes in first and is identical to no binding's node.
\<close>

definition transitive_nodes :: "each_block \<Rightarrow> component_context \<Rightarrow> node option \<Rightarrow> node list" where
  "transitive_nodes node ctx cid =
     (let own = (case cid of
                   Some c \<Rightarrow> []
                 | None \<Rightarrow> set_add_bindings [] (transitive_deps (metadata node)));
          bound = fold (\<lambda>blk acc. set_add_bindings acc (transitive_deps (metadata blk)))
                    (collect_parent_each_blocks ctx) own
      in (case cid of Some c \<Rightarrow> [c] | None \<Rightarrow> []) @ map snd bound)"

text \<open>
  \<open>child_state.transform\<close> as it stands when the transitive dependencies are
  visited: the copied table, the index strategy, and in legacy mode the strategy
  \<open>{ read: b.call }\<close> under the capture identifier's name.
\<close>

definition call_strategy :: strategy where
  "call_strategy = \<lparr> read = Some (\<lambda>n u. (b_call n [], u)), assign = None, mutate = None \<rparr>"

definition child_transform :: "env \<Rightarrow> each_block \<Rightarrow> state \<Rightarrow> 32 word \<Rightarrow> node option
    \<Rightarrow> (string \<rightharpoonup> strategy)" where
  "child_transform e node st flags cid =
     (let t = install_index (index node) (index_strategy e flags) (copy_transform (transform st))
      in if \<not> runes st
         then (case cid of Some c \<Rightarrow> t(name_of c \<mapsto> call_strategy) | None \<Rightarrow> t)
         else t)"

definition key_transform :: "each_block \<Rightarrow> state \<Rightarrow> (string \<rightharpoonup> strategy)" where
  "key_transform node st =
     install_index (index node) key_index_strategy (copy_transform (transform st))"

fun visit_all :: "(node \<Rightarrow> uses \<Rightarrow> node \<times> uses) \<Rightarrow> node list \<Rightarrow> uses \<Rightarrow> node list \<times> uses" where
  "visit_all v [] u = ([], u)"
| "visit_all v (n # ns) u =
     (case v n u of (n', u1) \<Rightarrow>
        (case visit_all v ns u1 of (ns', u2) \<Rightarrow> (n' # ns', u2)))"

definition invalidate_store_of :: "string \<Rightarrow> node option" where
  "invalidate_store_of store =
     (if store \<noteq> []
      then Some (b_call_s ''$.invalidate_store'' [b_id ''$$stores'', b_literal (LString store)])
      else None)"

text \<open>
  The part of \<open>sequence\<close> pushed in legacy mode: the call that invalidates the inner
  signals, when there is any transitive dependency.
\<close>

definition invalidate_inner_of ::
  "env \<Rightarrow> each_block \<Rightarrow> component_context \<Rightarrow> node option \<Rightarrow> (string \<rightharpoonup> strategy) \<Rightarrow> uses
    \<Rightarrow> node list \<times> uses" where
  "invalidate_inner_of e node ctx cid t u =
     (if \<not> runes (state ctx) then
        (let deps = transitive_nodes node ctx cid in
         if length deps > 0 then
           (case visit_all (visit e t) deps u of (visited, u') \<Rightarrow>
              ([b_call_s ''$.invalidate_inner_signals'' [b_thunk (b_sequence visited) False]], u'))
         else ([], u))
      else ([], u))"

definition build_sequence ::
  "env \<Rightarrow> each_block \<Rightarrow> component_context \<Rightarrow> node option \<Rightarrow> (string \<rightharpoonup> strategy) \<Rightarrow> string
    \<Rightarrow> uses \<Rightarrow> node list \<times> uses" where
  "build_sequence e node ctx cid t store u =
     (case invalidate_inner_of e node ctx cid t u of (inner, u') \<Rightarrow>
        (inner @ (case invalidate_store_of store of Some s \<Rightarrow> [s] | None \<Rightarrow> []), u'))"

text \<open>The strategy of an item that is a plain identifier.\<close>

definition item_left :: "env \<Rightarrow> node \<Rightarrow> node option \<Rightarrow> 32 word \<Rightarrow> node \<Rightarrow> node" where
  "item_left e collection cid flags idx =
     b_member (case cid of Some c \<Rightarrow> b_call c [] | None \<Rightarrow> collection)
       (if index_reactive flags then get_value e idx else idx) True"

definition item_read ::
  "env \<Rightarrow> binding \<Rightarrow> node \<Rightarrow> node option \<Rightarrow> 32 word \<Rightarrow> node \<Rightarrow> node \<Rightarrow> uses \<Rightarrow> node \<times> uses" where
  "item_read e bd collection cid flags idx n u =
     (if reassigned bd then (item_left e collection cid flags idx, u)
      else (if item_reactive flags then get_value e n else n, u))"

definition item_assign ::
  "env \<Rightarrow> node \<Rightarrow> node option \<Rightarrow> 32 word \<Rightarrow> node \<Rightarrow> node list
    \<Rightarrow> node \<Rightarrow> node \<Rightarrow> uses \<Rightarrow> node \<times> uses" where
  "item_assign e collection cid flags idx sequence n v u =
     (b_sequence (b_assignment ''='' (item_left e collection cid flags idx) v # sequence),
      u\<lparr>uses_index := True\<rparr>)"

definition item_mutate :: "node list \<Rightarrow> node \<Rightarrow> node \<Rightarrow> uses \<Rightarrow> node \<times> uses" where
  "item_mutate sequence n mutation u =
     (b_sequence (mutation # sequence), u\<lparr>uses_index := True\<rparr>)"

definition item_strategy ::
  "env \<Rightarrow> binding \<Rightarrow> node \<Rightarrow> node option \<Rightarrow> 32 word \<Rightarrow> node \<Rightarrow> node list \<Rightarrow> strategy" where
  "item_strategy e bd collection cid flags idx sequence =
     \<lparr> read = Some (item_read e bd collection cid flags idx),
       assign = Some (item_assign e collection cid flags idx sequence),
       mutate = Some (item_mutate sequence) \<rparr>"

text \<open>The loop over the inserts of a destructuring pattern.\<close>

fun rename_to :: "string \<Rightarrow> node \<Rightarrow> node" where
  "rename_to name (Identifier old) = Identifier name"
| "rename_to name n = n"

definition get_value_strategy :: "env \<Rightarrow> strategy" where
  "get_value_strategy e =
     \<lparr> read = Some (\<lambda>n u. (get_value e n, u)), assign = None, mutate = None \<rparr>"

fun inserts_loop ::
  "env \<Rightarrow> insert list \<Rightarrow> nat \<Rightarrow> (string \<rightharpoonup> strategy) \<Rightarrow> node list \<Rightarrow> uses
    \<Rightarrow> (string \<rightharpoonup> strategy) \<times> node list \<times> uses" where
  "inserts_loop e [] k t decls u = (t, decls, u)"
| "inserts_loop e (ins # rest) k t decls u =
     (let name = generate e ''$$array'' k;
          t' = t(name \<mapsto> get_value_strategy e)
      in case visit e t' (b_thunk (insert_value ins) False) u of (visited, u') \<Rightarrow>
           inserts_loop e rest (Suc k) t'
             (decls @ [b_var (rename_to name (insert_id ins)) (b_call_s ''$.derived'' [visited])])
             u')"

text \<open>The loop over the paths, one per leaf of the pattern.\<close>

definition path_read :: "env \<Rightarrow> destructured_path \<Rightarrow> node \<Rightarrow> node" where
  "path_read e p n = (if has_default_value p then get_value e n else b_call n [])"

definition path_strategy :: "env \<Rightarrow> destructured_path \<Rightarrow> node list \<Rightarrow> strategy" where
  "path_strategy e p sequence =
     \<lparr> read = Some (\<lambda>n u. (path_read e p n, u)),
       assign = Some (\<lambda>n v u.
         (b_sequence (b_assignment ''='' (update_expression p) v # sequence), u)),
       mutate = Some (\<lambda>n mutation u. (b_sequence (mutation # sequence), u)) \<rparr>"

definition path_declaration :: "destructured_path \<Rightarrow> node \<Rightarrow> node" where
  "path_declaration p visited =
     (let fn = b_thunk visited False
      in b_let (path_node p)
           (if has_default_value p then b_call_s ''$.derived_safe_equal'' [fn] else fn))"

fun paths_loop ::
  "env \<Rightarrow> node list \<Rightarrow> destructured_path list \<Rightarrow> (string \<rightharpoonup> strategy) \<Rightarrow> (string \<rightharpoonup> strategy)
    \<Rightarrow> node list \<Rightarrow> uses
    \<Rightarrow> (string \<rightharpoonup> strategy) \<times> (string \<rightharpoonup> strategy) \<times> node list \<times> uses" where
  "paths_loop e sequence [] t kt decls u = (t, kt, decls, u)"
| "paths_loop e sequence (p # ps) t kt decls u =
     (let name = name_of (path_node p)
      in case visit e t (path_expression p) u of (visited, u') \<Rightarrow>
           paths_loop e sequence ps
             (t(name \<mapsto> path_strategy e p sequence))
             (kt(name := None))
             (decls @ [path_declaration p visited]
                @ (if dev e then [b_stmt (path_read e p (b_id name))] else []))
             u')"

text \<open>
  The branch on the item pattern: what it leaves in \<open>child_state.transform\<close>, in
  \<open>key_state.transform\<close>, in \<open>declarations\<close> and in the two variables. The source
  casts the item's binding to \<open>Binding\<close> and reads \<open>binding.reassigned\<close> at the
  first read of the item, where JavaScript throws if there is none; the model gives
  \<open>None\<close> for a block whose identifier item has no binding in scope.
\<close>

definition install_item ::
  "env \<Rightarrow> each_block \<Rightarrow> scope \<Rightarrow> node \<Rightarrow> node option \<Rightarrow> 32 word \<Rightarrow> node list
    \<Rightarrow> (string \<rightharpoonup> strategy) \<Rightarrow> (string \<rightharpoonup> strategy) \<Rightarrow> uses
    \<Rightarrow> ((string \<rightharpoonup> strategy) \<times> (string \<rightharpoonup> strategy) \<times> node list \<times> uses) option" where
  "install_item e node sc collection cid flags sequence t kt u =
     (case each_context node of
        None \<Rightarrow> Some (t, kt, [], u)
      | Some (Identifier name) \<Rightarrow>
          (case scope_get sc name of
             None \<Rightarrow> None
           | Some bd \<Rightarrow>
               Some (t(name \<mapsto> item_strategy e bd collection cid flags (index_of node) sequence),
                     kt(name := None), [], u))
      | Some pattern \<Rightarrow>
          (let unwrapped = (if item_reactive flags then b_call_s ''$.get'' [item_of node]
                            else item_of node)
           in case extract_paths e pattern unwrapped (generate e ''$$array'') of
                (inserts, paths) \<Rightarrow>
                  (case inserts_loop e inserts 0 t [] u of (t1, decls1, u1) \<Rightarrow>
                     Some (paths_loop e sequence paths t1 kt decls1 u1))))"

text \<open>The key function, with the two variables after the key has been visited.\<close>

definition key_function_of ::
  "env \<Rightarrow> each_block \<Rightarrow> (string \<rightharpoonup> strategy) \<Rightarrow> uses \<Rightarrow> node \<times> uses" where
  "key_function_of e node kt u =
     (if keyed (metadata node) then
        (let pattern = (case each_context node of Some p \<Rightarrow> p | None \<Rightarrow> JSUndefined)
         in case visit e kt (case key node of Some k \<Rightarrow> k | None \<Rightarrow> JSUndefined) u of
              (visited, u') \<Rightarrow>
                (b_arrow (if key_uses_index u' then [pattern, index_of node] else [pattern])
                   visited, u'))
      else (b_id ''$.index'', u))"

definition group_binding_declaration :: "each_block \<Rightarrow> node list" where
  "group_binding_declaration node =
     (case index node of
        Some i \<Rightarrow> (if contains_group_binding (metadata node)
                   then [b_let (b_id i) (index_of node)] else [])
      | None \<Rightarrow> [])"

definition get_collection_of :: "each_block \<Rightarrow> node \<Rightarrow> node" where
  "get_collection_of node collection =
     b_thunk collection (has_await (metadata_expression (metadata node)))"

definition thunk_of :: "each_block \<Rightarrow> node \<Rightarrow> node" where
  "thunk_of node collection =
     (if has_await (metadata_expression (metadata node))
      then b_thunk (b_call_s ''$.get'' [b_id ''$$collection'']) False
      else get_collection_of node collection)"

definition render_args_of :: "each_block \<Rightarrow> node option \<Rightarrow> uses \<Rightarrow> node list" where
  "render_args_of node cid u =
     [b_id ''$$anchor'', item_of node]
       @ (if uses_index u \<or> cid \<noteq> None then [index_of node] else [])
       @ (case cid of Some c \<Rightarrow> [c] | None \<Rightarrow> [])"

definition fallback_args :: "env \<Rightarrow> each_block \<Rightarrow> state \<Rightarrow> uses \<Rightarrow> node list" where
  "fallback_args e node st u =
     (case fallback node of
        None \<Rightarrow> []
      | Some nodes \<Rightarrow>
          [b_arrow [b_id ''$$anchor'']
             (b_block (fst (visit_fragment e (copy_transform (transform st)) nodes u)))])"

definition statements_of :: "env \<Rightarrow> each_block \<Rightarrow> node list \<Rightarrow> node \<Rightarrow> node \<Rightarrow> node list" where
  "statements_of e node args thunk key_function =
     (let statements = [add_svelte_meta e (b_call_s ''$.each'' args) node ''each'']
      in if dev e \<and> keyed (metadata node)
         then b_stmt (b_call_s ''$.validate_each_keys'' [thunk, key_function]) # statements
         else statements)"

text \<open>What is pushed onto \<open>context.state.init\<close> at the end.\<close>

definition pushed_of :: "each_block \<Rightarrow> state \<Rightarrow> node \<Rightarrow> node list \<Rightarrow> node list" where
  "pushed_of node st collection statements =
     (if has_await (metadata_expression (metadata node)) then
        [b_stmt (b_call_s ''$.async''
           [state_node st, b_array [get_collection_of node collection],
            b_arrow [state_node st, b_id ''$$collection''] (b_block statements)])]
      else statements)"

section \<open>\<open>EachBlock\<close>\<close>

text \<open>
  \<open>let uses_index = each_node_meta.contains_group_binding; let key_uses_index = false;\<close>
\<close>

definition start_uses :: "each_block \<Rightarrow> uses" where
  "start_uses node =
     \<lparr> uses_index = contains_group_binding (metadata node), key_uses_index = False \<rparr>"

text \<open>
  The local variables of one call, as they stand when the function returns, and
  \<open>context.state\<close> with what the call pushed onto \<open>init\<close> and \<open>template\<close>.
\<close>

record each_locals =
  collection :: node
  flags :: "32 word"
  store_to_invalidate :: string
  collection_id :: "node option"
  sequence :: "node list"
  child_state_transform :: "string \<rightharpoonup> strategy"
  key_state_transform :: "string \<rightharpoonup> strategy"
  declarations_list :: "node list"
  block_body :: "node list"
  key_function :: node
  final_uses :: uses
  render_args :: "node list"
  args :: "node list"
  statements :: "node list"
  final_state :: state

definition each_block_locals :: "env \<Rightarrow> each_block \<Rightarrow> component_context \<Rightarrow> each_locals option" where
  "each_block_locals e node ctx =
     (let st = state ctx;
          coll = build_expression e (parent (scope st)) (expression node)
                   (metadata_expression (metadata node));
          fl = each_flags node (scope st) (runes st);
          store = store_to_invalidate_of node (scope st);
          cid = collection_id_of e (scope st);
          t0 = child_transform e node st fl cid;
          kt0 = key_transform node st;
          u0 = start_uses node
      in case build_sequence e node ctx cid t0 store u0 of (sq, u1) \<Rightarrow>
         (case install_item e node (scope st) coll cid fl sq t0 kt0 u1 of
            None \<Rightarrow> None
          | Some (t, kt, decls, u2) \<Rightarrow>
              (case visit_fragment e t (body node) u2 of (blk, u3) \<Rightarrow>
                 (case key_function_of e node kt u3 of (kf, u4) \<Rightarrow>
                    (let decls' = decls @ group_binding_declaration node;
                         th = thunk_of node coll;
                         ra = render_args_of node cid u4;
                         ar = [state_node st, b_literal (LNumber (sint fl)), th, kf,
                               b_arrow ra (b_block (decls' @ blk))]
                              @ fallback_args e node st u4;
                         stmts = statements_of e node ar th kf
                     in Some \<lparr> collection = coll, flags = fl, store_to_invalidate = store,
                               collection_id = cid, sequence = sq,
                               child_state_transform = t, key_state_transform = kt,
                               declarations_list = decls', block_body = blk,
                               key_function = kf, final_uses = u4, render_args = ra,
                               args = ar, statements = stmts,
                               final_state = st
                                 \<lparr> init := init st @ pushed_of node st coll stmts,
                                   template := template st
                                     @ (if is_controlled (metadata node) then []
                                        else [TemplateComment]) \<rparr> \<rparr>)))))"

definition EachBlock :: "env \<Rightarrow> each_block \<Rightarrow> component_context \<Rightarrow> state option" where
  "EachBlock e node ctx = map_option final_state (each_block_locals e node ctx)"

section \<open>The generic visitor\<close>

text \<open>
  Modelled from the spec: the visitors of the other node kinds are not among the
  sources. The spec: the strategy table is "consulted by the generic
  expression-lowering visitor whenever it encounters that identifier inside the
  construct's body", with \<open>read\<close> for a reference, \<open>assign\<close> for an assignment to the
  identifier itself and \<open>mutate\<close> for an assignment to one of its members; any other
  node is lowered by the "generic fallback (visit children, preserve shape)".
  The property of a member access that is not computed, the parameters of a function
  and the target of a declaration are names, not references, and are left as they are.
  The table is held by name "within a bounded lexical region": a name that the
  parameters of a function or the declarations of a block bind again is another
  identifier inside that function or block, and the visitor goes on there without the
  strategy of that name.
\<close>

text \<open>The names a pattern binds, and the names the declarations of a block bind.\<close>

fun pattern_names :: "node \<Rightarrow> string list"
  and pattern_names_list :: "node list \<Rightarrow> string list" where
  "pattern_names (Identifier name) = [name]"
| "pattern_names (ObjectPattern properties) = pattern_names_list properties"
| "pattern_names (ArrayPattern elements) = pattern_names_list elements"
| "pattern_names (Property k v) = pattern_names v"
| "pattern_names (AssignmentPattern left right) = pattern_names left"
| "pattern_names (RestElement argument) = pattern_names argument"
| "pattern_names (Literal v) = []"
| "pattern_names JSUndefined = []"
| "pattern_names JSFalse = []"
| "pattern_names (CallExpression callee arguments) = []"
| "pattern_names (MemberExpression obj property computed) = []"
| "pattern_names (SequenceExpression expressions) = []"
| "pattern_names (AssignmentExpression operator left right) = []"
| "pattern_names (ArrowFunctionExpression params fbody async) = []"
| "pattern_names (ArrayExpression elements) = []"
| "pattern_names (SpreadElement argument) = []"
| "pattern_names (ExpressionStatement ex) = []"
| "pattern_names (VariableDeclaration k target ini) = []"
| "pattern_names (BlockStatement stmts) = []"
| "pattern_names_list [] = []"
| "pattern_names_list (n # ns) = pattern_names n @ pattern_names_list ns"

fun declared_names :: "node list \<Rightarrow> string list" where
  "declared_names [] = []"
| "declared_names (VariableDeclaration k target ini # stmts) =
     pattern_names target @ declared_names stmts"
| "declared_names (stmt # stmts) = declared_names stmts"

definition without :: "string list \<Rightarrow> (string \<rightharpoonup> strategy) \<Rightarrow> (string \<rightharpoonup> strategy)" where
  "without names t = (\<lambda>name. if name \<in> set names then None else t name)"

fun generic_visit :: "(string \<rightharpoonup> strategy) \<Rightarrow> node \<Rightarrow> uses \<Rightarrow> node \<times> uses"
  and generic_visit_list :: "(string \<rightharpoonup> strategy) \<Rightarrow> node list \<Rightarrow> uses \<Rightarrow> node list \<times> uses" where
  "generic_visit t (Identifier name) u =
     (case t name of
        None \<Rightarrow> (Identifier name, u)
      | Some s \<Rightarrow> (case read s of None \<Rightarrow> (Identifier name, u) | Some f \<Rightarrow> f (Identifier name) u))"
| "generic_visit t (Literal v) u = (Literal v, u)"
| "generic_visit t JSUndefined u = (JSUndefined, u)"
| "generic_visit t JSFalse u = (JSFalse, u)"
| "generic_visit t (CallExpression callee arguments) u =
     (case generic_visit t callee u of (callee', u1) \<Rightarrow>
        (case generic_visit_list t arguments u1 of (arguments', u2) \<Rightarrow>
           (CallExpression callee' arguments', u2)))"
| "generic_visit t (MemberExpression obj property computed) u =
     (case generic_visit t obj u of (obj', u1) \<Rightarrow>
        (if computed
         then (case generic_visit t property u1 of (property', u2) \<Rightarrow>
                 (MemberExpression obj' property' computed, u2))
         else (MemberExpression obj' property computed, u1)))"
| "generic_visit t (SequenceExpression expressions) u =
     (case generic_visit_list t expressions u of (expressions', u1) \<Rightarrow>
        (SequenceExpression expressions', u1))"
| "generic_visit t (AssignmentExpression operator left right) u =
     (let target = (case object_of left of
                      Some ident \<Rightarrow> t (name_of ident)
                    | None \<Rightarrow> None);
          as = (case target of Some s \<Rightarrow> assign s | None \<Rightarrow> None);
          mu = (case target of Some s \<Rightarrow> mutate s | None \<Rightarrow> None)
      in if object_of left = Some left \<and> as \<noteq> None then
           (case generic_visit t right u of (right', u1) \<Rightarrow> the as left right' u1)
         else
           (case generic_visit t left u of (left', u1) \<Rightarrow>
              (case generic_visit t right u1 of (right', u2) \<Rightarrow>
                 (case mu of
                    Some f \<Rightarrow>
                      f (case object_of left of Some ident \<Rightarrow> ident | None \<Rightarrow> left)
                        (AssignmentExpression operator left' right') u2
                  | None \<Rightarrow> (AssignmentExpression operator left' right', u2)))))"
| "generic_visit t (ArrowFunctionExpression params fbody async) u =
     (case generic_visit (without (pattern_names_list params) t) fbody u of (fbody', u1) \<Rightarrow>
        (ArrowFunctionExpression params fbody' async, u1))"
| "generic_visit t (ArrayExpression elements) u =
     (case generic_visit_list t elements u of (elements', u1) \<Rightarrow>
        (ArrayExpression elements', u1))"
| "generic_visit t (SpreadElement argument) u =
     (case generic_visit t argument u of (argument', u1) \<Rightarrow> (SpreadElement argument', u1))"
| "generic_visit t (ObjectPattern properties) u = (ObjectPattern properties, u)"
| "generic_visit t (ArrayPattern elements) u = (ArrayPattern elements, u)"
| "generic_visit t (Property k v) u = (Property k v, u)"
| "generic_visit t (AssignmentPattern left right) u = (AssignmentPattern left right, u)"
| "generic_visit t (RestElement argument) u = (RestElement argument, u)"
| "generic_visit t (ExpressionStatement ex) u =
     (case generic_visit t ex u of (ex', u1) \<Rightarrow> (ExpressionStatement ex', u1))"
| "generic_visit t (VariableDeclaration k target ini) u =
     (case generic_visit t ini u of (ini', u1) \<Rightarrow> (VariableDeclaration k target ini', u1))"
| "generic_visit t (BlockStatement stmts) u =
     (case generic_visit_list (without (declared_names stmts) t) stmts u of
        (stmts', u1) \<Rightarrow> (BlockStatement stmts', u1))"
| "generic_visit_list t [] u = ([], u)"
| "generic_visit_list t (n # ns) u =
     (case generic_visit t n u of (n', u1) \<Rightarrow>
        (case generic_visit_list t ns u1 of (ns', u2) \<Rightarrow> (n' # ns', u2)))"

text \<open>
  The fragment visitor, as far as the strategies are concerned: the expressions of the
  fragment are visited in order, each giving one statement. (What a fragment really
  lowers to is the work of the template visitors.)
\<close>

fun generic_visit_fragment ::
  "(string \<rightharpoonup> strategy) \<Rightarrow> template_node list \<Rightarrow> uses \<Rightarrow> node list \<times> uses" where
  "generic_visit_fragment t [] u = ([], u)"
| "generic_visit_fragment t (ExpressionTag ex # ns) u =
     (case generic_visit t ex u of (ex', u1) \<Rightarrow>
        (case generic_visit_fragment t ns u1 of (stmts, u2) \<Rightarrow> (b_stmt ex' # stmts, u2)))"
| "generic_visit_fragment t (n # ns) u = generic_visit_fragment t ns u"


section \<open>\<open>CallExpression\<close>\<close>

text \<open>
  The collaborators of the call visitor that are not among the sources, taken as
  parameters: the module variable \<open>dev\<close>, \<open>get_rune\<close>, \<open>should_proxy\<close>,
  \<open>is_ignored\<close>, \<open>transform_inspect_rune\<close>, \<open>context.visit\<close> (with the value of
  \<open>in_derived\<close> when the call passes a state of its own) and
  \<open>scope.evaluate(arg).has_unknown\<close>.
\<close>

record call_env =
  call_dev :: bool
  get_rune :: "node \<Rightarrow> scope \<Rightarrow> string option"
  should_proxy :: "node \<Rightarrow> scope \<Rightarrow> bool"
  is_ignored :: "node \<Rightarrow> string \<Rightarrow> bool"
  transform_inspect_rune :: "node \<Rightarrow> node"
  call_visit :: "bool option \<Rightarrow> node \<Rightarrow> node"
  has_unknown :: "scope \<Rightarrow> node \<Rightarrow> bool"

text \<open>
  The visitor returns a node, or calls \<open>context.next()\<close> and returns nothing, which
  leaves the call to the generic lowering.
\<close>

datatype call_result = Replaced node | Next

text \<open>\<open>node.arguments[0]\<close>, which is \<open>undefined\<close> for a call without arguments.\<close>

definition first_argument :: "node list \<Rightarrow> node" where
  "first_argument arguments = (case arguments of [] \<Rightarrow> JSUndefined | a # rest \<Rightarrow> a)"

definition state_value :: "call_env \<Rightarrow> scope \<Rightarrow> string \<Rightarrow> node list \<Rightarrow> node" where
  "state_value ce sc rune arguments =
     (case arguments of
        [] \<Rightarrow> JSUndefined
      | a # rest \<Rightarrow>
          (let v = call_visit ce None a
           in if rune = ''$state'' \<and> should_proxy ce a sc then b_call_s ''$.proxy'' [v] else v))"

definition console_methods :: "string list" where
  "console_methods =
     [''debug'', ''dir'', ''error'', ''group'', ''groupCollapsed'', ''info'', ''log'', ''trace'',
      ''warn'']"

fun is_spread :: "node \<Rightarrow> bool" where
  "is_spread (SpreadElement argument) = True"
| "is_spread _ = False"

text \<open>The test of the \<open>if\<close> behind the \<open>switch\<close>.\<close>

definition console_condition :: "call_env \<Rightarrow> scope \<Rightarrow> node \<Rightarrow> node list \<Rightarrow> bool" where
  "console_condition ce sc callee arguments =
     (call_dev ce \<and>
      (case callee of
         MemberExpression (Identifier obj) (Identifier property) computed \<Rightarrow>
           obj = ''console'' \<and> scope_get sc ''console'' = None
           \<and> property \<in> set console_methods
           \<and> list_ex (\<lambda>arg. is_spread arg \<or> has_unknown ce sc arg) arguments
       | _ \<Rightarrow> False))"

definition console_rewrite :: "call_env \<Rightarrow> node \<Rightarrow> node list \<Rightarrow> node" where
  "console_rewrite ce callee arguments =
     b_call callee
       [b_spread (b_call_s ''$.log_if_contains_state''
          (b_literal (LString (case callee of
                                 MemberExpression obj property computed \<Rightarrow> name_of property
                               | _ \<Rightarrow> ''undefined''))
           # map (call_visit ce None) arguments))]"

definition after_switch :: "call_env \<Rightarrow> scope \<Rightarrow> node \<Rightarrow> node list \<Rightarrow> call_result" where
  "after_switch ce sc callee arguments =
     (if console_condition ce sc callee arguments
      then Replaced (console_rewrite ce callee arguments)
      else Next)"

text \<open>The visitor, for the call node with the given callee and arguments.\<close>

definition CallExpression_visitor :: "call_env \<Rightarrow> scope \<Rightarrow> node \<Rightarrow> node list \<Rightarrow> call_result" where
  "CallExpression_visitor ce sc callee arguments =
     (let node = CallExpression callee arguments;
          rune = get_rune ce node sc
      in if rune = Some ''$host'' then Replaced (b_id ''$$props.$$host'')
         else if rune = Some ''$effect.tracking'' then Replaced (b_call_s ''$.effect_tracking'' [])
         else if rune = Some ''$state'' \<or> rune = Some ''$state.raw'' then
           Replaced (b_call_s ''$.state'' [state_value ce sc (the rune) arguments])
         else if rune = Some ''$derived'' \<or> rune = Some ''$derived.by'' then
           (let fn = call_visit ce (Some (rune = Some ''$derived'')) (first_argument arguments)
            in Replaced (b_call_s ''$.derived''
                 [if rune = Some ''$derived'' then b_thunk fn False else fn]))
         else if rune = Some ''$state.snapshot'' then
           Replaced (b_call_s ''$.snapshot''
             [call_visit ce None (first_argument arguments),
              if is_ignored ce node ''state_snapshot_uncloneable'' then b_true else JSFalse])
         else if rune = Some ''$effect.root'' then
           Replaced (b_call_s ''$.effect_root'' (map (call_visit ce None) arguments))
         else if rune = Some ''$effect.pending'' then Replaced (b_call_s ''$.pending'' [])
         else if rune = Some ''$inspect'' \<or> rune = Some ''$inspect().with'' then
           Replaced (transform_inspect_rune ce node)
         else after_switch ce sc callee arguments)"

text \<open>The rune names the \<open>switch\<close> has a case for.\<close>

definition recognized_runes :: "string list" where
  "recognized_runes =
     [''$host'', ''$effect.tracking'', ''$state'', ''$state.raw'', ''$derived'', ''$derived.by'',
      ''$state.snapshot'', ''$effect.root'', ''$effect.pending'', ''$inspect'',
      ''$inspect().with'']"

section \<open>The children of a body\<close>




section \<open>An example block\<close>

text \<open>
  \<open>{#each items as item, i (item)}\<close> in a component whose \<open>items\<close> is declared at
  the top level, with one animated element as the body.
\<close>

definition example_dependency :: "string \<Rightarrow> nat \<Rightarrow> binding" where
  "example_dependency k d =
     \<lparr> kind = k, reassigned = False, node_ref = 1, binding_node = Identifier ''items'',
       scope_function_depth = d \<rparr>"

definition example_metadata :: each_metadata where
  "example_metadata =
     \<lparr> keyed = True, is_controlled = False, contains_group_binding = False,
       metadata_index = ''$$index'', transitive_deps = [],
       metadata_expression = \<lparr> dependencies = [example_dependency ''state'' 0], has_await = False \<rparr> \<rparr>"

definition example_block :: each_block where
  "example_block =
     \<lparr> expression = Identifier ''items'', each_context = Some (Identifier ''item''),
       index = Some ''i'', key = Some (Identifier ''item''),
       body = [Text '' '', RegularElement [OtherAttribute ''class'', AnimateDirective ''flip''],
               Comment ''c''],
       fallback = None, metadata = example_metadata \<rparr>"

definition example_scope :: scope where
  "example_scope =
     Scope [(''item'', \<lparr> kind = ''each'', reassigned = False, node_ref = 3, binding_node = Identifier ''item'',
                        scope_function_depth = 1 \<rparr>),
            (''i'', \<lparr> kind = ''each'', reassigned = False, node_ref = 4, binding_node = Identifier ''i'',
                     scope_function_depth = 1 \<rparr>)]
       (Some (Scope [(''items'', example_dependency ''state'' 0)] None 0)) 1"

definition example_state :: state where
  "example_state =
     \<lparr> scope = example_scope, runes = True, transform = Map.empty,
       state_node = Identifier ''node'', init = [], template = [] \<rparr>"

definition example_context :: component_context where
  "example_context = \<lparr> state = example_state, path = [] \<rparr>"


text \<open>
  An example of what \<open>extract_paths\<close> may give for the array pattern
  \<open>[a, b = f()]\<close>: two leaves, the second with a default value, behind one insert that
  turns the item into an array.
\<close>

definition example_extract_paths ::
  "node \<Rightarrow> node \<Rightarrow> (nat \<Rightarrow> string) \<Rightarrow> insert list \<times> destructured_path list" where
  "example_extract_paths pattern unwrapped names =
     ([\<lparr> insert_id = Identifier (names 0),
         insert_value = b_call_s ''$.to_array'' [unwrapped, b_literal (LNumber 2)] \<rparr>],
      [\<lparr> path_node = Identifier ''a'', is_rest = False, has_default_value = False,
         path_expression = b_member (Identifier (names 0)) (b_literal (LNumber 0)) True,
         update_expression = b_member (Identifier (names 0)) (b_literal (LNumber 0)) True \<rparr>,
       \<lparr> path_node = Identifier ''b'', is_rest = False, has_default_value = True,
         path_expression =
           b_call_s ''$.fallback''
             [b_member (Identifier (names 0)) (b_literal (LNumber 1)) True,
              b_thunk (b_call_s ''f'' []) False, b_true],
         update_expression = b_member (Identifier (names 0)) (b_literal (LNumber 1)) True \<rparr>])"

text \<open>The decomposition of \<open>{ a }\<close>: one leaf, no default value, no insert.\<close>

definition single_leaf_paths ::
  "node \<Rightarrow> node \<Rightarrow> (nat \<Rightarrow> string) \<Rightarrow> insert list \<times> destructured_path list" where
  "single_leaf_paths pattern unwrapped names =
     ([],
      [\<lparr> path_node = Identifier ''a'', is_rest = False, has_default_value = False,
         path_expression = b_member unwrapped (Identifier ''a'') False,
         update_expression = b_member unwrapped (Identifier ''a'') False \<rparr>])"

text \<open>
  The decomposition of the object pattern \<open>{ a, b = f() }\<close>: two leaves, the second with
  a default value that its expression falls back to, and no insert.
\<close>

definition object_default_paths ::
  "node \<Rightarrow> node \<Rightarrow> (nat \<Rightarrow> string) \<Rightarrow> insert list \<times> destructured_path list" where
  "object_default_paths pattern unwrapped names =
     ([],
      [\<lparr> path_node = Identifier ''a'', is_rest = False, has_default_value = False,
         path_expression = b_member unwrapped (Identifier ''a'') False,
         update_expression = b_member unwrapped (Identifier ''a'') False \<rparr>,
       \<lparr> path_node = Identifier ''b'', is_rest = False, has_default_value = True,
         path_expression =
           b_call_s ''$.fallback''
             [b_member unwrapped (Identifier ''b'') False, b_thunk (b_call_s ''f'' []) False,
              b_true],
         update_expression = b_member unwrapped (Identifier ''b'') False \<rparr>])"

definition example_env :: env where
  "example_env =
     \<lparr> dev = False,
       build_expression = (\<lambda>p n m. n),
       visit = generic_visit,
       visit_fragment = generic_visit_fragment,
       extract_paths = example_extract_paths,
       get_value = (\<lambda>n. b_call_s ''$.get'' [n]),
       unique = (\<lambda>name. name),
       generate = (\<lambda>name k. name @ replicate k CHR ''_''),
       add_svelte_meta = (\<lambda>ex n t. b_stmt ex) \<rparr>"

text \<open>
  A legacy-mode block over a store, \<open>{#each $items as item, i (item.id)}\<close>, whose body
  assigns to the item; \<open>selected\<close> is a transitive dependency.
\<close>

definition legacy_scope :: scope where
  "legacy_scope =
     Scope [(''item'', \<lparr> kind = ''each'', reassigned = True, node_ref = 3, binding_node = Identifier ''item'',
                        scope_function_depth = 1 \<rparr>),
            (''i'', \<lparr> kind = ''each'', reassigned = False, node_ref = 4, binding_node = Identifier ''i'',
                     scope_function_depth = 1 \<rparr>)]
       (Some (Scope [(''$items'', \<lparr> kind = ''store_sub'', reassigned = False,
                                   node_ref = 1, binding_node = Identifier ''$items'',
                                   scope_function_depth = 0 \<rparr>),
                     (''selected'', \<lparr> kind = ''normal'', reassigned = True,
                                     node_ref = 2, binding_node = Identifier ''selected'',
                                     scope_function_depth = 0 \<rparr>)] None 0)) 1"

definition legacy_block :: each_block where
  "legacy_block =
     \<lparr> expression = Identifier ''$items'', each_context = Some (Identifier ''item''),
       index = Some ''i'',
       key = Some (MemberExpression (Identifier ''item'') (Identifier ''id'') False),
       body = [ExpressionTag (AssignmentExpression ''='' (Identifier ''item'') (Identifier ''x''))],
       fallback = None,
       metadata =
         \<lparr> keyed = True, is_controlled = False, contains_group_binding = False,
           metadata_index = ''$$index'',
           transitive_deps = [\<lparr> kind = ''normal'', reassigned = True,
                                 node_ref = 2, binding_node = Identifier ''selected'',
                                 scope_function_depth = 0 \<rparr>],
           metadata_expression =
             \<lparr> dependencies = [\<lparr> kind = ''store_sub'', reassigned = False,
                                    node_ref = 1, binding_node = Identifier ''$items'',
                                    scope_function_depth = 0 \<rparr>],
               has_await = False \<rparr> \<rparr> \<rparr>"

definition legacy_context :: component_context where
  "legacy_context =
     \<lparr> state = \<lparr> scope = legacy_scope, runes = False, transform = Map.empty,
                 state_node = Identifier ''node'', init = [], template = [] \<rparr>,
       path = [] \<rparr>"

text \<open>\<open>{#each items as items}\<close>: the item shadows the collection.\<close>

definition shadow_scope :: scope where
  "shadow_scope =
     Scope [(''items'', \<lparr> kind = ''each'', reassigned = False, node_ref = 7, binding_node = Identifier ''items'',
                         scope_function_depth = 1 \<rparr>)]
       (Some (Scope [(''items'', example_dependency ''state'' 0)] None 0)) 1"

definition shadow_block :: each_block where
  "shadow_block =
     \<lparr> expression = Identifier ''items'', each_context = Some (Identifier ''items''),
       index = None, key = None, body = [ExpressionTag (Identifier ''items'')],
       fallback = None, metadata = example_metadata\<lparr> keyed := False \<rparr> \<rparr>"

definition shadow_context :: component_context where
  "shadow_context = \<lparr> state = example_state\<lparr> scope := shadow_scope \<rparr>, path = [] \<rparr>"

text \<open>The example block over a collection expression that awaits.\<close>

definition async_block :: each_block where
  "async_block =
     example_block\<lparr> metadata := example_metadata\<lparr> metadata_expression :=
       \<lparr> dependencies = [example_dependency ''state'' 0], has_await = True \<rparr> \<rparr> \<rparr>"

text \<open>
  Three blocks with a destructuring pattern as the item: \<open>[a, b = f()]\<close>,
  \<open>{ a }\<close> and \<open>{ a, b = f() }\<close>, each with its decomposition above.
\<close>

definition pattern_scope :: scope where
  "pattern_scope =
     Scope [(''a'', \<lparr> kind = ''each'', reassigned = False, node_ref = 5, binding_node = Identifier ''a'',
                     scope_function_depth = 1 \<rparr>),
            (''b'', \<lparr> kind = ''each'', reassigned = False, node_ref = 6, binding_node = Identifier ''b'',
                     scope_function_depth = 1 \<rparr>)]
       (Some (Scope [(''items'', example_dependency ''state'' 0)] None 0)) 1"

definition pattern_context :: component_context where
  "pattern_context = \<lparr> state = example_state\<lparr> scope := pattern_scope \<rparr>, path = [] \<rparr>"

definition pattern_block :: each_block where
  "pattern_block =
     example_block
       \<lparr> each_context := Some (ArrayPattern
            [Identifier ''a'', AssignmentPattern (Identifier ''b'') (b_call_s ''f'' [])]),
         index := None, key := Some (Identifier ''a'') \<rparr>"

definition single_leaf_block :: each_block where
  "single_leaf_block =
     example_block
       \<lparr> each_context := Some (ObjectPattern [Property (Identifier ''a'') (Identifier ''a'')]),
         index := None, key := Some (Identifier ''a'') \<rparr>"

definition single_leaf_env :: env where
  "single_leaf_env = example_env\<lparr> extract_paths := single_leaf_paths \<rparr>"

definition object_default_block :: each_block where
  "object_default_block =
     example_block
       \<lparr> each_context := Some (ObjectPattern
            [Property (Identifier ''a'') (Identifier ''a''),
             Property (Identifier ''b'')
               (AssignmentPattern (Identifier ''b'') (b_call_s ''f'' []))]),
         index := None, key := Some (Identifier ''a'') \<rparr>"

definition object_default_env :: env where
  "object_default_env = example_env\<lparr> extract_paths := object_default_paths \<rparr>"

text \<open>
  An example of the call visitor's collaborators, in development mode: \<open>$state\<close> and
  \<open>$state.raw\<close> are the runes it knows, an array literal is to be proxied, and
  anything but a literal may hold state.
\<close>

definition example_get_rune :: "node \<Rightarrow> scope \<Rightarrow> string option" where
  "example_get_rune n sc =
     (case n of
        CallExpression callee arguments \<Rightarrow>
          (if callee = Identifier ''$state'' then Some ''$state''
           else if callee = MemberExpression (Identifier ''$state'') (Identifier ''raw'') False
           then Some ''$state.raw''
           else None)
      | _ \<Rightarrow> None)"

definition example_should_proxy :: "node \<Rightarrow> scope \<Rightarrow> bool" where
  "example_should_proxy n sc = (case n of ArrayExpression elements \<Rightarrow> True | _ \<Rightarrow> False)"

definition example_has_unknown :: "scope \<Rightarrow> node \<Rightarrow> bool" where
  "example_has_unknown sc n = (case n of Literal v \<Rightarrow> False | _ \<Rightarrow> True)"

definition example_call_env :: call_env where
  "example_call_env =
     \<lparr> call_dev = True,
       get_rune = example_get_rune,
       should_proxy = example_should_proxy,
       is_ignored = (\<lambda>n code. False),
       transform_inspect_rune = (\<lambda>n. n),
       call_visit = (\<lambda>d n. n),
       has_unknown = example_has_unknown \<rparr>"

text \<open>
  A legacy-mode block \<open>{#each items as x}\<close> inside \<open>{#each items as items}\<close>: the
  inner collection is the outer item. The outer block has the outer collection as a
  transitive dependency and the inner block the outer item: two bindings named
  \<open>items\<close>.
\<close>

definition outer_block :: each_block where
  "outer_block =
     shadow_block\<lparr> metadata := example_metadata
       \<lparr> keyed := False, transitive_deps := [example_dependency ''normal'' 0] \<rparr> \<rparr>"

definition nested_scope :: scope where
  "nested_scope =
     Scope [(''x'', \<lparr> kind = ''each'', reassigned = True, node_ref = 8,
                     binding_node = Identifier ''x'', scope_function_depth = 1 \<rparr>)]
       (Some shadow_scope) 1"

definition nested_block :: each_block where
  "nested_block =
     \<lparr> expression = Identifier ''items'', each_context = Some (Identifier ''x''),
       index = None, key = None,
       body = [ExpressionTag (AssignmentExpression ''='' (Identifier ''x'') (Identifier ''y''))],
       fallback = None,
       metadata = example_metadata
         \<lparr> keyed := False,
           transitive_deps := [\<lparr> kind = ''each'', reassigned = False, node_ref = 7,
                                  binding_node = Identifier ''items'',
                                  scope_function_depth = 1 \<rparr>] \<rparr> \<rparr>"

definition nested_context :: component_context where
  "nested_context =
     \<lparr> state = \<lparr> scope = nested_scope, runes = False, transform = Map.empty,
                 state_node = Identifier ''node'', init = [], template = [] \<rparr>,
       path = [OtherPathNode ''Fragment'', EachBlockNode outer_block] \<rparr>"




section \<open>Reading the output\<close>

text \<open>
  What the strategy that stands under a name in \<open>child_state.transform\<close> returns for
  a read of a node, and for an assignment of a value to it.
\<close>

definition installed_read :: "each_locals \<Rightarrow> string \<Rightarrow> node \<Rightarrow> uses \<Rightarrow> node option" where
  "installed_read L name n u =
     (case child_state_transform L name of
        None \<Rightarrow> None
      | Some s \<Rightarrow> (case read s of None \<Rightarrow> None | Some f \<Rightarrow> Some (fst (f n u))))"

definition installed_assign ::
  "each_locals \<Rightarrow> string \<Rightarrow> node \<Rightarrow> node \<Rightarrow> uses \<Rightarrow> node option" where
  "installed_assign L name n v u =
     (case child_state_transform L name of
        None \<Rightarrow> None
      | Some s \<Rightarrow> (case assign s of None \<Rightarrow> None | Some f \<Rightarrow> Some (fst (f n v u))))"

fun is_identifier :: "node \<Rightarrow> bool" where
  "is_identifier (Identifier name) = True"
| "is_identifier _ = False"

text \<open>
  The declarations of a destructuring pattern, written out for given bodies of the
  thunks: for each insert a \<open>var\<close> declaration of a \<open>$.derived\<close> value under the
  generated name; for each leaf a \<open>let\<close> declaration, of a \<open>$.derived_safe_equal\<close>
  value when the leaf has a default value and of the bare thunk otherwise, followed in
  development mode by a statement that reads the leaf.
\<close>

fun insert_declarations :: "env \<Rightarrow> nat \<Rightarrow> insert list \<Rightarrow> node list \<Rightarrow> node list" where
  "insert_declarations e k (ins # inserts) (v # vs) =
     VariableDeclaration ''var'' (rename_to (generate e ''$$array'' k) (insert_id ins))
       (CallExpression (Identifier ''$.derived'') [v])
     # insert_declarations e (Suc k) inserts vs"
| "insert_declarations e k inserts vs = []"

fun leaf_declarations :: "env \<Rightarrow> destructured_path list \<Rightarrow> node list \<Rightarrow> node list" where
  "leaf_declarations e (p # paths) (w # ws) =
     VariableDeclaration ''let'' (path_node p)
       (if has_default_value p
        then CallExpression (Identifier ''$.derived_safe_equal'')
               [ArrowFunctionExpression [] w False]
        else ArrowFunctionExpression [] w False)
     # (if dev e
        then [ExpressionStatement
                (if has_default_value p then get_value e (Identifier (name_of (path_node p)))
                 else CallExpression (Identifier (name_of (path_node p))) [])]
        else [])
     @ leaf_declarations e paths ws"
| "leaf_declarations e paths ws = []"

fun is_declaration :: "node \<Rightarrow> bool" where
  "is_declaration (VariableDeclaration k target ini) = True"
| "is_declaration _ = False"

text \<open>A declaration whose value is a call of one of the two derived constructors.\<close>

fun is_derived_declaration :: "node \<Rightarrow> bool" where
  "is_derived_declaration (VariableDeclaration k target (CallExpression (Identifier callee) arguments)) =
     (callee = ''$.derived'' \<or> callee = ''$.derived_safe_equal'')"
| "is_derived_declaration _ = False"




section \<open>Invariants of the strategy tables\<close>




section \<open>Properties of the flags\<close>

lemma item_reactive_bit: "item_reactive f \<longleftrightarrow> bit f 0"
  by (simp add: item_reactive_def EACH_ITEM_REACTIVE_def bit_iff_and_push_bit_not_eq_0)

lemma index_reactive_bit: "index_reactive f \<longleftrightarrow> bit f 1"
  by (simp add: index_reactive_def EACH_INDEX_REACTIVE_def bit_iff_and_push_bit_not_eq_0)

lemma bit_exp_word32: "m < 32 \<Longrightarrow> bit (2 ^ m :: 32 word) n \<longleftrightarrow> n = m"
  by (auto simp add: bit_exp_iff)

lemma bit_EACH_ITEM_REACTIVE: "bit EACH_ITEM_REACTIVE n \<longleftrightarrow> n = 0"
  unfolding EACH_ITEM_REACTIVE_def by (simp add: bit_1_iff)

lemma bit_EACH_INDEX_REACTIVE: "bit EACH_INDEX_REACTIVE n \<longleftrightarrow> n = 1"
  unfolding EACH_INDEX_REACTIVE_def push_bit_of_1 by (rule bit_exp_word32) simp

lemma bit_EACH_IS_CONTROLLED: "bit EACH_IS_CONTROLLED n \<longleftrightarrow> n = 2"
  unfolding EACH_IS_CONTROLLED_def push_bit_of_1 by (rule bit_exp_word32) simp

lemma bit_EACH_IS_ANIMATED: "bit EACH_IS_ANIMATED n \<longleftrightarrow> n = 3"
  unfolding EACH_IS_ANIMATED_def push_bit_of_1 by (rule bit_exp_word32) simp

lemma bit_EACH_ITEM_IMMUTABLE: "bit EACH_ITEM_IMMUTABLE n \<longleftrightarrow> n = 4"
  unfolding EACH_ITEM_IMMUTABLE_def push_bit_of_1 by (rule bit_exp_word32) simp

lemmas bit_flag_consts = bit_EACH_ITEM_REACTIVE bit_EACH_INDEX_REACTIVE bit_EACH_IS_CONTROLLED
  bit_EACH_IS_ANIMATED bit_EACH_ITEM_IMMUTABLE

lemma item_reactive_loop_eq:
  "item_reactive_loop d r k us deps f =
     (if (\<exists>bd\<in>set deps. scope_function_depth bd < d) \<and> (\<not> r \<or> \<not> k \<or> us)
      then f OR EACH_ITEM_REACTIVE else f)"
  by (induction deps) auto

lemma uses_store_loop_iff: "uses_store_loop deps \<longleftrightarrow> (\<exists>bd\<in>set deps. kind bd = ''store_sub'')"
  by (induction deps) auto

lemma bit_each_flags:
  "bit (each_flags node sc r) n \<longleftrightarrow>
     (n = 1 \<and> keyed (metadata node) \<and> index node \<noteq> None)
   \<or> (n = 0 \<and> (\<exists>bd\<in>set (dependencies (metadata_expression (metadata node))).
                    scope_function_depth bd < function_depth sc)
         \<and> (\<not> r \<or> \<not> key_is_item node
              \<or> uses_store_loop (dependencies (metadata_expression (metadata node)))))
   \<or> (n = 4 \<and> r \<and> \<not> uses_store_loop (dependencies (metadata_expression (metadata node))))
   \<or> (n = 3 \<and> key node \<noteq> None \<and> list_ex animated_child (body node))
   \<or> (n = 2 \<and> is_controlled (metadata node))"
  unfolding each_flags_def Let_def item_reactive_loop_eq
  by (auto simp add: bit_or_iff bit_flag_consts)





text \<open>
  C4: the item-is-reactive flag is set if and only if some dependency of the collection
  expression is declared at a shallower function depth than the block's scope and
  legacy mode is active, or the key is not the item identifier itself, or some
  dependency is a store subscription. In runes mode, with no store dependency and the
  item itself as the key, the flag is clear.
\<close>

theorem item_reactive_flag_iff:
  "(item_reactive (each_flags node sc r) \<longleftrightarrow>
      list_ex (\<lambda>bd. scope_function_depth bd < function_depth sc)
        (dependencies (metadata_expression (metadata node)))
      \<and> (\<not> r \<or> \<not> key_is_item node
           \<or> list_ex (\<lambda>bd. kind bd = ''store_sub'')
                (dependencies (metadata_expression (metadata node)))))
   \<and> (r \<and> key_is_item node
        \<and> \<not> list_ex (\<lambda>bd. kind bd = ''store_sub'')
               (dependencies (metadata_expression (metadata node)))
      \<longrightarrow> \<not> item_reactive (each_flags node sc r))"
  by (simp add: item_reactive_bit bit_each_flags uses_store_loop_iff list_ex_iff)

theorem item_reactive_flag_iff_witness:
  "\<not> item_reactive (each_flags example_block example_scope True)
   \<and> item_reactive (each_flags example_block example_scope False)
   \<and> item_reactive (each_flags (example_block\<lparr>key := Some (MemberExpression (Identifier ''item'') (Identifier ''id'') False)\<rparr>) example_scope True)"
  using item_reactive_flag_iff [of example_block example_scope True]
    item_reactive_flag_iff [of example_block example_scope False]
    item_reactive_flag_iff [of "example_block\<lparr>key := Some (MemberExpression (Identifier ''item'') (Identifier ''id'') False)\<rparr>" example_scope True]
  by (simp add: example_block_def example_metadata_def example_scope_def example_dependency_def
      key_is_item_def)






section \<open>Properties of the lowering\<close>

lemmas builder_defs = b_id_def b_literal_def b_true_def b_call_def b_call_s_def b_member_def
  b_sequence_def b_assignment_def b_arrow_def b_thunk_def b_array_def b_spread_def b_block_def
  b_stmt_def b_var_def b_let_def

lemma index_reactive_each_flags:
  "index_reactive (each_flags node sc r) \<longleftrightarrow> keyed (metadata node) \<and> index node \<noteq> None"
  by (simp add: index_reactive_bit bit_each_flags)

lemma item_reactive_each_flags:
  "item_reactive (each_flags node sc r) \<longleftrightarrow>
     (\<exists>bd\<in>set (dependencies (metadata_expression (metadata node))).
        scope_function_depth bd < function_depth sc)
     \<and> (\<not> r \<or> \<not> key_is_item node
          \<or> uses_store_loop (dependencies (metadata_expression (metadata node))))"
  by (simp add: item_reactive_bit bit_each_flags)

lemmas model_defs = each_block_locals_def build_sequence_def invalidate_inner_of_def
  transitive_nodes_def set_add_bindings_def set_add_def collect_parent_each_blocks_def
  child_transform_def key_transform_def install_index_def copy_transform_def
  install_item_def item_strategy_def item_assign_def item_read_def item_mutate_def item_left_def
  index_strategy_def key_index_strategy_def call_strategy_def
  key_function_of_def group_binding_declaration_def get_collection_of_def thunk_of_def
  render_args_of_def fallback_args_def statements_of_def pushed_of_def
  store_to_invalidate_of_def collection_id_of_def parent_resolves_def index_of_def item_of_def
  invalidate_store_of_def start_uses_def
  path_read_def path_strategy_def path_declaration_def get_value_strategy_def

lemma example_env_fields:
  "dev example_env = False"
  "build_expression example_env p n m = n"
  "visit example_env = generic_visit"
  "visit_fragment example_env = generic_visit_fragment"
  "extract_paths example_env = example_extract_paths"
  "get_value example_env n = b_call_s ''$.get'' [n]"
  "unique example_env name = name"
  "generate example_env name k = name @ replicate k CHR ''_''"
  "add_svelte_meta example_env ex nd t = b_stmt ex"
  by (simp_all add: example_env_def)

lemma locals_facts:
  assumes "each_block_locals e node ctx = Some L"
  shows "collection L = build_expression e (parent (scope (state ctx))) (expression node)
           (metadata_expression (metadata node))"
    and "flags L = each_flags node (scope (state ctx)) (runes (state ctx))"
    and "store_to_invalidate L = store_to_invalidate_of node (scope (state ctx))"
    and "collection_id L = collection_id_of e (scope (state ctx))"
    and "sequence L = fst (build_sequence e node ctx (collection_id L)
           (child_transform e node (state ctx) (flags L) (collection_id L))
           (store_to_invalidate L) (start_uses node))"
    and "render_args L = render_args_of node (collection_id L) (final_uses L)"
    and "statements L = statements_of e node (args L) (thunk_of node (collection L)) (key_function L)"
    and "init (final_state L) = init (state ctx) @ pushed_of node (state ctx) (collection L) (statements L)"
    and "hd (tl (tl (args L))) = thunk_of node (collection L)"
  using assms unfolding each_block_locals_def Let_def
  by (auto split: prod.splits option.splits)

lemma locals_identifier:
  assumes "each_context node = Some (Identifier name)"
    and "each_block_locals e node ctx = Some L"
  shows "\<exists>bd. scope_get (scope (state ctx)) name = Some bd \<and>
           child_state_transform L name
             = Some (item_strategy e bd (collection L) (collection_id L) (flags L) (index_of node)
                  (sequence L))"
  using assms unfolding each_block_locals_def Let_def install_item_def
  by (auto split: prod.splits option.splits)

lemma build_sequence_shape:
  "fst (build_sequence e node ctx cid t store u) =
     (if \<not> runes (state ctx) \<and> transitive_nodes node ctx cid \<noteq> []
      then [b_call_s ''$.invalidate_inner_signals''
              [b_thunk (b_sequence (fst (visit_all (visit e t) (transitive_nodes node ctx cid) u)))
                 False]]
      else [])
     @ (if store \<noteq> []
        then [b_call_s ''$.invalidate_store'' [b_id ''$$stores'', b_literal (LString store)]]
        else [])"
  by (simp add: build_sequence_def invalidate_inner_of_def invalidate_store_of_def Let_def
      split: prod.splits)

lemma installed_assign_identifier:
  assumes "each_context node = Some (Identifier name)"
    and "each_block_locals e node ctx = Some L"
  shows "installed_assign L name n v u =
     Some (b_sequence
       (b_assignment ''=''
          (b_member (case collection_id L of Some c \<Rightarrow> b_call c [] | None \<Rightarrow> collection L)
             (if index_reactive (flags L) then get_value e (index_of node) else index_of node)
             True) v
        # (if \<not> runes (state ctx) \<and> transitive_nodes node ctx (collection_id L) \<noteq> []
           then [b_call_s ''$.invalidate_inner_signals''
                   [b_thunk (b_sequence (fst (visit_all
                       (visit e (child_transform e node (state ctx) (flags L) (collection_id L)))
                       (transitive_nodes node ctx (collection_id L)) (start_uses node)))) False]]
           else [])
        @ (if store_to_invalidate L \<noteq> []
           then [b_call_s ''$.invalidate_store''
                   [b_id ''$$stores'', b_literal (LString (store_to_invalidate L))]]
           else [])))"
proof -
  obtain bd where "child_state_transform L name
      = Some (item_strategy e bd (collection L) (collection_id L) (flags L) (index_of node)
           (sequence L))"
    using locals_identifier [OF assms] by blast
  then have "installed_assign L name n v u =
      Some (b_sequence (b_assignment ''=''
        (item_left e (collection L) (collection_id L) (flags L) (index_of node)) v # sequence L))"
    by (simp add: installed_assign_def item_strategy_def item_assign_def)
  then show ?thesis
    by (simp add: item_left_def locals_facts(5) [OF assms(2)] build_sequence_shape)
qed

lemma legacy_locals_Some: "\<exists>L. each_block_locals example_env legacy_block legacy_context = Some L"
  by (simp add: each_block_locals_def install_item_def Let_def legacy_block_def legacy_context_def
      legacy_scope_def split: prod.splits)

lemma legacy_facts:
  "each_context legacy_block = Some (Identifier ''item'')"
  "index legacy_block = Some ''i''"
  "keyed (metadata legacy_block)"
  "\<not> runes (state legacy_context)"
  "scope (state legacy_context) = legacy_scope"
  "index_of legacy_block = Identifier ''i''"
  "store_to_invalidate_of legacy_block legacy_scope = ''$items''"
  "collection_id_of example_env legacy_scope = None"
  "transitive_nodes legacy_block legacy_context None = [Identifier ''selected'']"
  "expression legacy_block = Identifier ''$items''"
  "start_uses legacy_block = \<lparr> uses_index = False, key_uses_index = False \<rparr>"
  by (simp_all add: legacy_block_def legacy_context_def legacy_scope_def example_env_def
      index_of_def b_id_def store_to_invalidate_of_def collection_id_of_def parent_resolves_def
      transitive_nodes_def set_add_bindings_def set_add_def collect_parent_each_blocks_def
      start_uses_def)

lemma legacy_child_transform:
  "child_transform example_env legacy_block (state legacy_context) fl None ''selected'' = None"
  by (simp add: child_transform_def install_index_def copy_transform_def legacy_block_def
      legacy_context_def)

lemma legacy_assign_value:
  "installed_assign (the (each_block_locals example_env legacy_block legacy_context)) ''item''
       (Identifier ''item'') (Identifier ''x'') (start_uses legacy_block)
     = Some (SequenceExpression
         [AssignmentExpression ''=''
            (MemberExpression (Identifier ''$items'')
               (CallExpression (Identifier ''$.get'') [Identifier ''i'']) True)
            (Identifier ''x''),
          CallExpression (Identifier ''$.invalidate_inner_signals'')
            [ArrowFunctionExpression [] (SequenceExpression [Identifier ''selected'']) False],
          CallExpression (Identifier ''$.invalidate_store'')
            [Identifier ''$$stores'', Literal (LString ''$items'')]])"
proof -
  obtain L where L: "each_block_locals example_env legacy_block legacy_context = Some L"
    using legacy_locals_Some by blast
  show ?thesis
    using installed_assign_identifier [OF legacy_facts(1) L, of "Identifier ''item''"
        "Identifier ''x''" "start_uses legacy_block"]
    by (simp add: L locals_facts [OF L] legacy_facts index_reactive_each_flags
        legacy_child_transform builder_defs example_env_fields)
qed

text \<open>
  C1, as the claim states it, fails: in the legacy block over the store \<open>$items\<close> the
  assignment to the item is followed by the invalidation of the inner signals first and
  by the invalidation of the store second, not the other way round.
\<close>

theorem store_first_counterexample:
  "installed_assign (the (each_block_locals example_env legacy_block legacy_context)) ''item''
       (Identifier ''item'') (Identifier ''x'') (start_uses legacy_block)
     \<noteq> Some (SequenceExpression
         [AssignmentExpression ''=''
            (MemberExpression (Identifier ''$items'')
               (CallExpression (Identifier ''$.get'') [Identifier ''i'']) True)
            (Identifier ''x''),
          CallExpression (Identifier ''$.invalidate_store'')
            [Identifier ''$$stores'', Literal (LString ''$items'')],
          CallExpression (Identifier ''$.invalidate_inner_signals'')
            [ArrowFunctionExpression [] (SequenceExpression [Identifier ''selected'']) False]])"
  by (simp add: legacy_assign_value)

text \<open>
  C1, amended: for a block whose item pattern is a plain identifier, the \<open>assign\<close>
  strategy installed under the item's name gives a sequence expression: the write
  \<open>collection[index] = value\<close> (through a call of the capture identifier if there is
  one, with the index read through \<open>get_value\<close> if the index is reactive), then the
  invalidation of the inner signals (in legacy mode, when there is a transitive
  dependency), then the invalidation of the store (when the collection is a store).
\<close>

theorem item_assign_order:
  assumes "each_context node = Some (Identifier name)"
    and "each_block_locals e node ctx = Some L"
  shows "installed_assign L name n v u =
     Some (b_sequence
       (b_assignment ''=''
          (b_member (case collection_id L of Some c \<Rightarrow> b_call c [] | None \<Rightarrow> collection L)
             (if index_reactive (flags L) then get_value e (index_of node) else index_of node)
             True) v
        # (if \<not> runes (state ctx) \<and> transitive_nodes node ctx (collection_id L) \<noteq> []
           then [b_call_s ''$.invalidate_inner_signals''
                   [b_thunk (b_sequence (fst (visit_all
                       (visit e (child_transform e node (state ctx) (flags L) (collection_id L)))
                       (transitive_nodes node ctx (collection_id L)) (start_uses node)))) False]]
           else [])
        @ (if store_to_invalidate L \<noteq> []
           then [b_call_s ''$.invalidate_store''
                   [b_id ''$$stores'', b_literal (LString (store_to_invalidate L))]]
           else [])))"
  using installed_assign_identifier [OF assms] .

lemma nested_locals_Some: "\<exists>L. each_block_locals example_env nested_block nested_context = Some L"
  by (simp add: each_block_locals_def install_item_def Let_def nested_block_def nested_context_def
      nested_scope_def split: prod.splits)

lemma nested_facts:
  "each_context nested_block = Some (Identifier ''x'')"
  "index nested_block = None"
  "\<not> runes (state nested_context)"
  "scope (state nested_context) = nested_scope"
  "index_of nested_block = Identifier ''$$index''"
  "store_to_invalidate_of nested_block nested_scope = []"
  "collection_id_of example_env nested_scope = None"
  "transitive_nodes nested_block nested_context None = [Identifier ''items'', Identifier ''items'']"
  "expression nested_block = Identifier ''items''"
  "start_uses nested_block = \<lparr> uses_index = False, key_uses_index = False \<rparr>"
  "child_transform example_env nested_block (state nested_context) fl None ''items'' = None"
  by (simp_all add: nested_block_def nested_context_def nested_scope_def shadow_scope_def
      outer_block_def shadow_block_def example_metadata_def example_dependency_def
      index_of_def b_id_def store_to_invalidate_of_def collection_id_of_def parent_resolves_def
      transitive_nodes_def set_add_bindings_def set_add_def collect_parent_each_blocks_def
      start_uses_def child_transform_def install_index_def copy_transform_def)

theorem item_assign_order_witness:
  "each_context legacy_block = Some (Identifier ''item'')
   \<and> each_block_locals example_env legacy_block legacy_context
       = Some (the (each_block_locals example_env legacy_block legacy_context))
   \<and> installed_assign (the (each_block_locals example_env legacy_block legacy_context)) ''item''
       (Identifier ''item'') (Identifier ''x'') (start_uses legacy_block)
     = Some (SequenceExpression
         [AssignmentExpression ''=''
            (MemberExpression (Identifier ''$items'')
               (CallExpression (Identifier ''$.get'') [Identifier ''i'']) True)
            (Identifier ''x''),
          CallExpression (Identifier ''$.invalidate_inner_signals'')
            [ArrowFunctionExpression [] (SequenceExpression [Identifier ''selected'']) False],
          CallExpression (Identifier ''$.invalidate_store'')
            [Identifier ''$$stores'', Literal (LString ''$items'')]])
   \<and> each_context nested_block = Some (Identifier ''x'')
   \<and> each_block_locals example_env nested_block nested_context
       = Some (the (each_block_locals example_env nested_block nested_context))
   \<and> installed_assign (the (each_block_locals example_env nested_block nested_context)) ''x''
       (Identifier ''x'') (Identifier ''y'') (start_uses nested_block)
     = Some (SequenceExpression
         [AssignmentExpression ''=''
            (MemberExpression (Identifier ''items'') (Identifier ''$$index'') True)
            (Identifier ''y''),
          CallExpression (Identifier ''$.invalidate_inner_signals'')
            [ArrowFunctionExpression []
               (SequenceExpression [Identifier ''items'', Identifier ''items'']) False]])"
proof -
  obtain L where L: "each_block_locals example_env legacy_block legacy_context = Some L"
    using legacy_locals_Some by blast
  obtain N where N: "each_block_locals example_env nested_block nested_context = Some N"
    using nested_locals_Some by blast
  have nested: "installed_assign N ''x'' (Identifier ''x'') (Identifier ''y'')
       (start_uses nested_block)
     = Some (SequenceExpression
         [AssignmentExpression ''=''
            (MemberExpression (Identifier ''items'') (Identifier ''$$index'') True)
            (Identifier ''y''),
          CallExpression (Identifier ''$.invalidate_inner_signals'')
            [ArrowFunctionExpression []
               (SequenceExpression [Identifier ''items'', Identifier ''items'']) False]])"
    using item_assign_order [OF nested_facts(1) N, of "Identifier ''x''" "Identifier ''y''"
        "start_uses nested_block"]
    by (simp add: locals_facts [OF N] nested_facts index_reactive_each_flags
        builder_defs example_env_fields)
  have "installed_assign L ''item'' (Identifier ''item'') (Identifier ''x'') (start_uses legacy_block)
     = Some (SequenceExpression
         [AssignmentExpression ''=''
            (MemberExpression (Identifier ''$items'')
               (CallExpression (Identifier ''$.get'') [Identifier ''i'']) True)
            (Identifier ''x''),
          CallExpression (Identifier ''$.invalidate_inner_signals'')
            [ArrowFunctionExpression [] (SequenceExpression [Identifier ''selected'']) False],
          CallExpression (Identifier ''$.invalidate_store'')
            [Identifier ''$$stores'', Literal (LString ''$items'')]])"
    using item_assign_order [OF legacy_facts(1) L, of "Identifier ''item''" "Identifier ''x''"
        "start_uses legacy_block"]
    by (simp add: locals_facts [OF L] legacy_facts index_reactive_each_flags
        legacy_child_transform builder_defs example_env_fields)
  then show ?thesis
    using L N nested by (simp add: legacy_facts nested_facts)
qed


lemma installed_read_identifier:
  assumes "each_context node = Some (Identifier name)"
    and "each_block_locals e node ctx = Some L"
    and "scope_get (scope (state ctx)) name = Some bd"
  shows "installed_read L name n u =
     Some (if reassigned bd
           then b_member (case collection_id L of Some c \<Rightarrow> b_call c [] | None \<Rightarrow> collection L)
                  (if index_reactive (flags L) then get_value e (index_of node) else index_of node)
                  True
           else if item_reactive (flags L) then get_value e n else n)"
proof -
  have "child_state_transform L name
      = Some (item_strategy e bd (collection L) (collection_id L) (flags L) (index_of node)
           (sequence L))"
    using locals_identifier [OF assms(1,2)] assms(3) by auto
  then show ?thesis
    by (simp add: installed_read_def item_strategy_def item_read_def item_left_def)
qed

lemma legacy_item_binding:
  "scope_get (scope (state legacy_context)) ''item''
     = Some \<lparr> kind = ''each'', reassigned = True, node_ref = 3, binding_node = Identifier ''item'',
              scope_function_depth = 1 \<rparr>"
  by (simp add: legacy_context_def legacy_scope_def)

lemma legacy_item_reactive:
  "item_reactive (each_flags legacy_block legacy_scope False)"
  by (simp add: item_reactive_each_flags legacy_block_def legacy_scope_def)

lemma legacy_read_value:
  "installed_read (the (each_block_locals example_env legacy_block legacy_context)) ''item''
       (Identifier ''item'') (start_uses legacy_block)
     = Some (MemberExpression (Identifier ''$items'')
               (CallExpression (Identifier ''$.get'') [Identifier ''i'']) True)"
proof -
  obtain L where L: "each_block_locals example_env legacy_block legacy_context = Some L"
    using legacy_locals_Some by blast
  show ?thesis
    using installed_read_identifier [OF legacy_facts(1) L legacy_item_binding,
        of "Identifier ''item''" "start_uses legacy_block"]
    by (simp add: L locals_facts [OF L] legacy_facts index_reactive_each_flags
        builder_defs example_env_fields)
qed

text \<open>
  C5, as the claim states it, fails: the item of the legacy block is reassigned in the
  body, and although the item-is-reactive flag is set, a read of the item is not its
  reactive-read form but the indexed member of the collection.
\<close>

theorem reactive_read_counterexample:
  "item_reactive (flags (the (each_block_locals example_env legacy_block legacy_context)))
   \<and> installed_read (the (each_block_locals example_env legacy_block legacy_context)) ''item''
        (Identifier ''item'') (start_uses legacy_block)
      \<noteq> Some (get_value example_env (Identifier ''item''))"
proof -
  obtain L where L: "each_block_locals example_env legacy_block legacy_context = Some L"
    using legacy_locals_Some by blast
  have "item_reactive (flags L)"
    by (simp add: locals_facts [OF L] legacy_facts legacy_item_reactive)
  moreover have "installed_read L ''item'' (Identifier ''item'') (start_uses legacy_block)
     = Some (MemberExpression (Identifier ''$items'')
               (CallExpression (Identifier ''$.get'') [Identifier ''i'']) True)"
    using legacy_read_value by (simp add: L)
  ultimately show ?thesis
    by (simp add: L example_env_fields builder_defs)
qed

text \<open>
  C5, amended: for a block whose item pattern is a plain identifier, the \<open>read\<close>
  strategy installed under the item's name returns, when the item's binding is never
  reassigned, the node itself if the item-is-reactive flag is clear and its
  reactive-read form if the flag is set; when the binding is reassigned it returns
  the indexed member of the collection, whatever the flag.
\<close>

theorem item_read_strategy:
  assumes "each_context node = Some (Identifier name)"
    and "each_block_locals e node ctx = Some L"
    and "scope_get (scope (state ctx)) name = Some bd"
  shows "installed_read L name n u =
     Some (if reassigned bd
           then b_member (case collection_id L of Some c \<Rightarrow> b_call c [] | None \<Rightarrow> collection L)
                  (if index_reactive (flags L) then get_value e (index_of node) else index_of node)
                  True
           else if item_reactive (flags L) then get_value e n else n)"
  using installed_read_identifier [OF assms] .

lemma example_locals_Some: "\<exists>L. each_block_locals example_env example_block example_context = Some L"
  by (simp add: each_block_locals_def install_item_def Let_def example_block_def
      example_context_def example_state_def example_scope_def split: prod.splits)

lemma example_item_binding:
  "scope_get (scope (state example_context)) ''item''
     = Some \<lparr> kind = ''each'', reassigned = False, node_ref = 3, binding_node = Identifier ''item'',
              scope_function_depth = 1 \<rparr>"
  by (simp add: example_context_def example_state_def example_scope_def)

lemma example_facts:
  "each_context example_block = Some (Identifier ''item'')"
  "index example_block = Some ''i''"
  "keyed (metadata example_block)"
  "runes (state example_context)"
  "scope (state example_context) = example_scope"
  "index_of example_block = Identifier ''i''"
  "item_of example_block = Identifier ''item''"
  "collection_id_of example_env example_scope = None"
  "expression example_block = Identifier ''items''"
  "\<not> item_reactive (each_flags example_block example_scope True)"
  "start_uses example_block = \<lparr> uses_index = False, key_uses_index = False \<rparr>"
  by (simp_all add: example_block_def example_context_def example_state_def example_scope_def
      example_metadata_def example_dependency_def
      index_of_def item_of_def b_id_def collection_id_of_def parent_resolves_def
      start_uses_def item_reactive_each_flags key_is_item_def)

theorem item_read_strategy_witness:
  "each_context example_block = Some (Identifier ''item'')
   \<and> each_block_locals example_env example_block example_context
       = Some (the (each_block_locals example_env example_block example_context))
   \<and> scope_get (scope (state example_context)) ''item''
       = Some \<lparr> kind = ''each'', reassigned = False, node_ref = 3, binding_node = Identifier ''item'',
                scope_function_depth = 1 \<rparr>
   \<and> \<not> item_reactive (flags (the (each_block_locals example_env example_block example_context)))
   \<and> installed_read (the (each_block_locals example_env example_block example_context)) ''item''
        (Identifier ''item'') (start_uses example_block)
      = Some (Identifier ''item'')"
proof -
  obtain L where L: "each_block_locals example_env example_block example_context = Some L"
    using example_locals_Some by blast
  have "installed_read L ''item'' (Identifier ''item'') (start_uses example_block)
      = Some (Identifier ''item'')"
    using item_read_strategy [OF example_facts(1) L example_item_binding,
        of "Identifier ''item''" "start_uses example_block"]
    by (simp add: locals_facts [OF L] example_facts)
  moreover have "scope_get example_scope ''item''
       = Some \<lparr> kind = ''each'', reassigned = False, node_ref = 3, binding_node = Identifier ''item'',
                scope_function_depth = 1 \<rparr>"
    by (simp add: example_scope_def)
  ultimately show ?thesis
    using L by (simp add: example_facts locals_facts [OF L])
qed

lemma collection_id_loop_eq:
  "collection_id_loop e sc ds =
     (if list_ex (parent_resolves sc) (map fst ds) then Some (Identifier (unique e ''$$array''))
      else None)"
  by (induction ds) auto

text \<open>
  C6: the capture identifier is allocated if and only if some name declared in the
  block's own scope resolves from the parent scope. Without one, the parameters of the
  item renderer are the anchor, the item and (if used) the index; with one, they are the
  anchor, the item, the index and the capture identifier.
\<close>

theorem collection_id_iff_shadow:
  assumes "each_block_locals e node ctx = Some L"
  shows "(collection_id L \<noteq> None \<longleftrightarrow>
            list_ex (parent_resolves (scope (state ctx)))
              (map fst (declarations (scope (state ctx)))))
    \<and> (collection_id L = None \<longrightarrow>
          render_args L = [b_id ''$$anchor'', item_of node]
            @ (if uses_index (final_uses L) then [index_of node] else []))
    \<and> (collection_id L \<noteq> None \<longrightarrow>
          render_args L = [b_id ''$$anchor'', item_of node, index_of node,
                           Identifier (unique e ''$$array'')])"
  by (auto simp add: locals_facts [OF assms] collection_id_of_def collection_id_loop_eq
      render_args_of_def)

lemma shadow_locals_Some: "\<exists>L. each_block_locals example_env shadow_block shadow_context = Some L"
  by (simp add: each_block_locals_def install_item_def Let_def shadow_block_def
      shadow_context_def example_state_def shadow_scope_def split: prod.splits)

lemma shadow_facts:
  "scope (state shadow_context) = shadow_scope"
  "declarations shadow_scope =
     [(''items'', \<lparr> kind = ''each'', reassigned = False, node_ref = 7, binding_node = Identifier ''items'',
                   scope_function_depth = 1 \<rparr>)]"
  "parent_resolves shadow_scope ''items''"
  "item_of shadow_block = Identifier ''items''"
  "index_of shadow_block = Identifier ''$$index''"
  by (simp_all add: shadow_context_def example_state_def shadow_scope_def shadow_block_def
      parent_resolves_def item_of_def index_of_def example_metadata_def)

theorem collection_id_iff_shadow_witness:
  "each_block_locals example_env shadow_block shadow_context
       = Some (the (each_block_locals example_env shadow_block shadow_context))
   \<and> collection_id (the (each_block_locals example_env shadow_block shadow_context))
       = Some (Identifier ''$$array'')
   \<and> render_args (the (each_block_locals example_env shadow_block shadow_context))
       = [Identifier ''$$anchor'', Identifier ''items'', Identifier ''$$index'',
          Identifier ''$$array'']
   \<and> each_block_locals example_env example_block example_context
       = Some (the (each_block_locals example_env example_block example_context))
   \<and> collection_id (the (each_block_locals example_env example_block example_context)) = None
   \<and> render_args (the (each_block_locals example_env example_block example_context))
       = [Identifier ''$$anchor'', Identifier ''item'']"
proof -
  obtain L where L: "each_block_locals example_env shadow_block shadow_context = Some L"
    using shadow_locals_Some by blast
  obtain M where M: "each_block_locals example_env example_block example_context = Some M"
    using example_locals_Some by blast
  have 1: "collection_id L = Some (Identifier ''$$array'')
      \<and> render_args L = [Identifier ''$$anchor'', Identifier ''items'', Identifier ''$$index'',
          Identifier ''$$array'']"
    using collection_id_iff_shadow [OF L]
    by (auto simp add: shadow_facts locals_facts(4) [OF L] collection_id_of_def
        example_env_fields b_id_def)
  have "map_option (uses_index \<circ> final_uses)
          (each_block_locals example_env example_block example_context) = Some False"
    by (simp add: model_defs builder_defs example_env_fields index_reactive_each_flags
      item_reactive_each_flags example_block_def example_context_def example_state_def
      example_scope_def example_metadata_def example_dependency_def Let_def)
  then have "\<not> uses_index (final_uses M)"
    by (simp add: M)
  then have 2: "collection_id M = None \<and> render_args M = [Identifier ''$$anchor'', Identifier ''item'']"
    using collection_id_iff_shadow [OF M]
    by (auto simp add: example_facts locals_facts(4) [OF M] b_id_def)
  show ?thesis
    using 1 2 L M by simp
qed


lemma locals_args:
  assumes "each_block_locals e node ctx = Some L"
  shows "args L =
     [state_node (state ctx), b_literal (LNumber (sint (flags L))), thunk_of node (collection L),
      key_function L, b_arrow (render_args L) (b_block (declarations_list L @ block_body L))]
     @ fallback_args e node (state ctx) (final_uses L)"
  using assms unfolding each_block_locals_def Let_def
  by (auto split: prod.splits option.splits)

text \<open>
  C8: when the collection expression awaits, the only statement pushed is the
  registration \<open>$.async(node, [async () => collection], (node, $$collection) => {...})\<close>,
  whose function body holds the statements of the synchronous construction, and the
  collection thunk handed to \<open>$.each\<close> reads \<open>$.get($$collection)\<close>; when it does not
  await, the statements are pushed as they are and the thunk returns the collection.
  The last of the statements is the \<open>$.each\<close> call in both cases.
\<close>

theorem async_wrapper:
  assumes "each_block_locals e node ctx = Some L"
  shows "(has_await (metadata_expression (metadata node)) \<longrightarrow>
            init (final_state L) = init (state ctx) @
              [b_stmt (b_call_s ''$.async''
                 [state_node (state ctx), b_array [b_thunk (collection L) True],
                  b_arrow [state_node (state ctx), b_id ''$$collection'']
                    (b_block (statements L))])]
            \<and> args L ! 2 = b_thunk (b_call_s ''$.get'' [b_id ''$$collection'']) False)
     \<and> (\<not> has_await (metadata_expression (metadata node)) \<longrightarrow>
            init (final_state L) = init (state ctx) @ statements L
            \<and> args L ! 2 = b_thunk (collection L) False)
     \<and> last (statements L) = add_svelte_meta e (b_call_s ''$.each'' (args L)) node ''each''"
  by (simp add: locals_facts(7,8) [OF assms] locals_args [OF assms] pushed_of_def thunk_of_def
      get_collection_of_def statements_of_def Let_def)

lemma async_locals_Some: "\<exists>L. each_block_locals example_env async_block example_context = Some L"
  by (simp add: each_block_locals_def install_item_def Let_def async_block_def example_block_def
      example_context_def example_state_def example_scope_def split: prod.splits)

theorem async_wrapper_witness:
  "each_block_locals example_env async_block example_context
     = Some (the (each_block_locals example_env async_block example_context))
   \<and> init (final_state (the (each_block_locals example_env async_block example_context)))
     = [ExpressionStatement (CallExpression (Identifier ''$.async'')
          [Identifier ''node'',
           ArrayExpression [ArrowFunctionExpression [] (Identifier ''items'') True],
           ArrowFunctionExpression [Identifier ''node'', Identifier ''$$collection'']
             (BlockStatement
                (statements (the (each_block_locals example_env async_block example_context))))
             False])]
   \<and> args (the (each_block_locals example_env async_block example_context)) ! 2
     = ArrowFunctionExpression []
         (CallExpression (Identifier ''$.get'') [Identifier ''$$collection'']) False
   \<and> init (final_state (the (each_block_locals example_env example_block example_context)))
     = statements (the (each_block_locals example_env example_block example_context))
   \<and> args (the (each_block_locals example_env example_block example_context)) ! 2
     = ArrowFunctionExpression [] (Identifier ''items'') False"
proof -
  obtain L where L: "each_block_locals example_env async_block example_context = Some L"
    using async_locals_Some by blast
  obtain M where M: "each_block_locals example_env example_block example_context = Some M"
    using example_locals_Some by blast
  have "has_await (metadata_expression (metadata async_block))"
    "\<not> has_await (metadata_expression (metadata example_block))"
    "expression async_block = Identifier ''items''"
    "state_node (state example_context) = Identifier ''node''"
    "init (state example_context) = []"
    by (simp_all add: async_block_def example_block_def example_metadata_def example_context_def
        example_state_def)
  then show ?thesis
    using async_wrapper [OF L] async_wrapper [OF M]
    by (simp add: L M locals_facts(1) [OF L] locals_facts(1) [OF M] example_env_fields
        example_facts builder_defs)
qed

lemma inserts_loop_shape:
  "inserts_loop e ins k t decls u = (t', decls', u') \<Longrightarrow>
     \<exists>vs. list_all2 (\<lambda>i v. \<exists>t u. v = fst (visit e t (b_thunk (insert_value i) False) u)) ins vs
       \<and> decls' = decls @ insert_declarations e k ins vs"
proof (induction ins arbitrary: k t decls u)
  case Nil
  then show ?case by simp
next
  case (Cons i ins)
  define t1 where "t1 = t(generate e ''$$array'' k \<mapsto> get_value_strategy e)"
  obtain v u1 where v: "visit e t1 (b_thunk (insert_value i) False) u = (v, u1)"
    by (cases "visit e t1 (b_thunk (insert_value i) False) u") auto
  define d where "d = b_var (rename_to (generate e ''$$array'' k) (insert_id i))
    (b_call_s ''$.derived'' [v])"
  have "inserts_loop e ins (Suc k) t1 (decls @ [d]) u1 = (t', decls', u')"
    using Cons.prems v by (simp add: Let_def t1_def d_def)
  from Cons.IH [OF this] obtain vs where
    vs: "list_all2 (\<lambda>i v. \<exists>t u. v = fst (visit e t (b_thunk (insert_value i) False) u)) ins vs"
    and decls': "decls' = (decls @ [d]) @ insert_declarations e (Suc k) ins vs"
    by blast
  have "\<exists>t u. v = fst (visit e t (b_thunk (insert_value i) False) u)"
    using v by (intro exI [of _ t1] exI [of _ u]) simp
  then have "list_all2 (\<lambda>i v. \<exists>t u. v = fst (visit e t (b_thunk (insert_value i) False) u))
      (i # ins) (v # vs)"
    using vs by simp
  moreover have "decls' = decls @ insert_declarations e k (i # ins) (v # vs)"
    using decls' by (simp add: d_def builder_defs)
  ultimately show ?case
    by blast
qed

lemma paths_loop_shape:
  "paths_loop e sq ps t kt decls u = (t', kt', decls', u') \<Longrightarrow>
     \<exists>ws. list_all2 (\<lambda>p w. \<exists>t u. w = fst (visit e t (path_expression p) u)) ps ws
       \<and> decls' = decls @ leaf_declarations e ps ws"
proof (induction ps arbitrary: t kt decls u)
  case Nil
  then show ?case by simp
next
  case (Cons p ps)
  obtain w u1 where w: "visit e t (path_expression p) u = (w, u1)"
    by (cases "visit e t (path_expression p) u") auto
  define d where "d = [path_declaration p w]
     @ (if dev e then [b_stmt (path_read e p (b_id (name_of (path_node p))))] else [])"
  have "paths_loop e sq ps (t(name_of (path_node p) \<mapsto> path_strategy e p sq))
      (kt(name_of (path_node p) := None)) (decls @ d) u1 = (t', kt', decls', u')"
    using Cons.prems w by (simp add: Let_def d_def)
  from Cons.IH [OF this] obtain ws where
    ws: "list_all2 (\<lambda>p w. \<exists>t u. w = fst (visit e t (path_expression p) u)) ps ws"
    and decls': "decls' = (decls @ d) @ leaf_declarations e ps ws"
    by blast
  have "\<exists>t u. w = fst (visit e t (path_expression p) u)"
    using w by (intro exI [of _ t] exI [of _ u]) simp
  then have "list_all2 (\<lambda>p w. \<exists>t u. w = fst (visit e t (path_expression p) u))
      (p # ps) (w # ws)"
    using ws by simp
  moreover have "d @ leaf_declarations e ps ws = leaf_declarations e (p # ps) (w # ws)"
    by (simp add: d_def path_declaration_def path_read_def builder_defs Let_def)
  then have "decls' = decls @ leaf_declarations e (p # ps) (w # ws)"
    using decls' by simp
  ultimately show ?case
    by blast
qed

lemma install_item_pattern:
  assumes "each_context node = Some pattern" and "\<not> is_identifier pattern"
  shows "install_item e node sc coll cid fl sq t kt u =
     (case extract_paths e pattern
             (if item_reactive fl then b_call_s ''$.get'' [item_of node] else item_of node)
             (generate e ''$$array'') of
        (inserts, paths) \<Rightarrow>
          (case inserts_loop e inserts 0 t [] u of (t1, decls1, u1) \<Rightarrow>
             Some (paths_loop e sq paths t1 kt decls1 u1)))"
  using assms by (cases pattern) (simp_all add: install_item_def Let_def)

lemma locals_pattern:
  assumes "each_context node = Some pattern" and "\<not> is_identifier pattern"
    and "each_block_locals e node ctx = Some L"
    and "extract_paths e pattern
           (if item_reactive (flags L) then b_call_s ''$.get'' [item_of node] else item_of node)
           (generate e ''$$array'') = (inserts, paths)"
  shows "declarations_list L =
     (case inserts_loop e inserts 0
             (child_transform e node (state ctx) (flags L) (collection_id L)) []
             (snd (build_sequence e node ctx (collection_id L)
                (child_transform e node (state ctx) (flags L) (collection_id L))
                (store_to_invalidate L) (start_uses node))) of
        (t1, decls1, u1) \<Rightarrow>
          (case paths_loop e (sequence L) paths t1 (key_transform node (state ctx)) decls1 u1 of
             (t2, kt2, decls2, u2) \<Rightarrow> decls2))
     @ group_binding_declaration node"
proof -
  have fl: "flags L = each_flags node (scope (state ctx)) (runes (state ctx))"
    using locals_facts(2) [OF assms(3)] .
  show ?thesis
    using assms(3,4) unfolding each_block_locals_def Let_def fl
      install_item_pattern [OF assms(1,2)]
    by (auto split: prod.splits option.splits)
qed

lemma pattern_locals_Some:
  "\<exists>L. each_block_locals example_env pattern_block pattern_context = Some L"
  "\<exists>L. each_block_locals single_leaf_env single_leaf_block pattern_context = Some L"
  "\<exists>L. each_block_locals object_default_env object_default_block pattern_context = Some L"
  by (simp_all add: each_block_locals_def install_item_def Let_def pattern_block_def
      single_leaf_block_def object_default_block_def b_call_s_def b_call_def b_id_def
      example_block_def split: prod.splits)

lemma single_leaf_declarations:
  "map_option declarations_list (each_block_locals single_leaf_env single_leaf_block pattern_context)
     = Some [VariableDeclaration ''let'' (Identifier ''a'')
               (ArrowFunctionExpression []
                  (MemberExpression (CallExpression (Identifier ''$.get'') [Identifier ''$$item''])
                     (Identifier ''a'') False) False)]"
  by (simp add: model_defs builder_defs example_env_fields index_reactive_each_flags
      item_reactive_each_flags single_leaf_env_def single_leaf_paths_def
      single_leaf_block_def pattern_context_def pattern_scope_def
      example_block_def example_context_def example_state_def
      example_scope_def example_metadata_def example_dependency_def key_is_item_def Let_def)

lemma object_default_declarations:
  "map_option declarations_list
     (each_block_locals object_default_env object_default_block pattern_context)
     = Some [VariableDeclaration ''let'' (Identifier ''a'')
               (ArrowFunctionExpression []
                  (MemberExpression (CallExpression (Identifier ''$.get'') [Identifier ''$$item''])
                     (Identifier ''a'') False) False),
             VariableDeclaration ''let'' (Identifier ''b'')
               (CallExpression (Identifier ''$.derived_safe_equal'')
                  [ArrowFunctionExpression []
                     (CallExpression (Identifier ''$.fallback'')
                        [MemberExpression
                           (CallExpression (Identifier ''$.get'') [Identifier ''$$item''])
                           (Identifier ''b'') False,
                         ArrowFunctionExpression [] (CallExpression (Identifier ''f'') []) False,
                         Literal (LBool True)]) False])]"
  by (simp add: model_defs builder_defs example_env_fields index_reactive_each_flags
      item_reactive_each_flags object_default_env_def object_default_paths_def
      object_default_block_def pattern_context_def pattern_scope_def without_def
      example_block_def example_context_def example_state_def
      example_scope_def example_metadata_def example_dependency_def key_is_item_def Let_def)

text \<open>
  C2, as the claim states it, fails. The pattern \<open>{ a }\<close> has one leaf and no default
  value: its only declaration is \<open>let a = () => $.get($$item).a\<close>, a plain thunk and no
  derived declaration, where the claim counts one per leaf. The claim's own pattern
  \<open>{ a, b = f() }\<close> has two leaves and one default value: it gives two declarations, the
  thunk of \<open>a\<close> and the derived declaration of \<open>b\<close>, whose expression holds the default
  value; there is no third declaration for \<open>f()\<close>, where the claim counts three derived
  declarations.
\<close>

theorem derived_per_leaf_counterexample:
  "declarations_list (the (each_block_locals single_leaf_env single_leaf_block pattern_context))
     = [VariableDeclaration ''let'' (Identifier ''a'')
          (ArrowFunctionExpression []
             (MemberExpression (CallExpression (Identifier ''$.get'') [Identifier ''$$item''])
                (Identifier ''a'') False) False)]
   \<and> length (filter is_derived_declaration (declarations_list
        (the (each_block_locals single_leaf_env single_leaf_block pattern_context)))) \<noteq> 1
   \<and> declarations_list
        (the (each_block_locals object_default_env object_default_block pattern_context))
     = [VariableDeclaration ''let'' (Identifier ''a'')
          (ArrowFunctionExpression []
             (MemberExpression (CallExpression (Identifier ''$.get'') [Identifier ''$$item''])
                (Identifier ''a'') False) False),
        VariableDeclaration ''let'' (Identifier ''b'')
          (CallExpression (Identifier ''$.derived_safe_equal'')
             [ArrowFunctionExpression []
                (CallExpression (Identifier ''$.fallback'')
                   [MemberExpression
                      (CallExpression (Identifier ''$.get'') [Identifier ''$$item''])
                      (Identifier ''b'') False,
                    ArrowFunctionExpression [] (CallExpression (Identifier ''f'') []) False,
                    Literal (LBool True)]) False])]
   \<and> length (filter is_derived_declaration (declarations_list
        (the (each_block_locals object_default_env object_default_block pattern_context)))) \<noteq> 3"
proof -
  obtain L where L: "each_block_locals single_leaf_env single_leaf_block pattern_context = Some L"
    using pattern_locals_Some(2) by blast
  obtain M where
    M: "each_block_locals object_default_env object_default_block pattern_context = Some M"
    using pattern_locals_Some(3) by blast
  show ?thesis
    using single_leaf_declarations object_default_declarations by (simp add: L M)
qed

text \<open>
  C2, amended: for a block whose item pattern is a destructuring pattern, the
  declarations are, in this order: for each insert of the pattern's decomposition one
  \<open>var\<close> declaration of a \<open>$.derived\<close> value, whose argument is the visited thunk of
  the insert's value; for each leaf binding one \<open>let\<close> declaration, of a
  \<open>$.derived_safe_equal\<close> value when the leaf has a default value and of the bare thunk
  otherwise, the thunk's body being the visited expression of the leaf, followed in
  development mode by a statement that reads the leaf; and the declaration of the index
  under a group binding. No declaration is made for a default value by itself.
\<close>

theorem destructuring_declarations:
  assumes "each_context node = Some pattern" and "\<not> is_identifier pattern"
    and "each_block_locals e node ctx = Some L"
    and "extract_paths e pattern
           (if item_reactive (flags L) then b_call_s ''$.get'' [item_of node] else item_of node)
           (generate e ''$$array'') = (inserts, paths)"
  shows "\<exists>vs ws.
     list_all2 (\<lambda>ins v. \<exists>t u. v = fst (visit e t (b_thunk (insert_value ins) False) u)) inserts vs
     \<and> list_all2 (\<lambda>p w. \<exists>t u. w = fst (visit e t (path_expression p) u)) paths ws
     \<and> declarations_list L
         = insert_declarations e 0 inserts vs @ leaf_declarations e paths ws
           @ group_binding_declaration node"
proof -
  define t0 where "t0 = child_transform e node (state ctx) (flags L) (collection_id L)"
  define u0 where "u0 = snd (build_sequence e node ctx (collection_id L) t0
    (store_to_invalidate L) (start_uses node))"
  obtain t1 decls1 u1 where ins: "inserts_loop e inserts 0 t0 [] u0 = (t1, decls1, u1)"
    by (cases "inserts_loop e inserts 0 t0 [] u0") auto
  obtain t2 kt2 decls2 u2 where
    ps: "paths_loop e (sequence L) paths t1 (key_transform node (state ctx)) decls1 u1
      = (t2, kt2, decls2, u2)"
    by (cases "paths_loop e (sequence L) paths t1 (key_transform node (state ctx)) decls1 u1")
      auto
  have ds: "declarations_list L = decls2 @ group_binding_declaration node"
    using locals_pattern [OF assms] ins ps by (simp add: t0_def u0_def)
  from inserts_loop_shape [OF ins] obtain vs where
    vs: "list_all2 (\<lambda>ins v. \<exists>t u. v = fst (visit e t (b_thunk (insert_value ins) False) u))
      inserts vs"
    and 1: "decls1 = insert_declarations e 0 inserts vs"
    by auto
  from paths_loop_shape [OF ps] obtain ws where
    ws: "list_all2 (\<lambda>p w. \<exists>t u. w = fst (visit e t (path_expression p) u)) paths ws"
    and 2: "decls2 = decls1 @ leaf_declarations e paths ws"
    by blast
  show ?thesis
    using vs ws by (intro exI [of _ vs] exI [of _ ws]) (simp add: ds 1 2)
qed

theorem destructuring_declarations_witness:
  "each_context pattern_block = Some (ArrayPattern
      [Identifier ''a'', AssignmentPattern (Identifier ''b'') (b_call_s ''f'' [])])
   \<and> \<not> is_identifier (ArrayPattern
      [Identifier ''a'', AssignmentPattern (Identifier ''b'') (b_call_s ''f'' [])])
   \<and> each_block_locals example_env pattern_block pattern_context
       = Some (the (each_block_locals example_env pattern_block pattern_context))
   \<and> length (fst (example_extract_paths
         (ArrayPattern [Identifier ''a'', AssignmentPattern (Identifier ''b'') (b_call_s ''f'' [])])
         (b_call_s ''$.get'' [Identifier ''$$item'']) (generate example_env ''$$array''))) = 1
   \<and> map has_default_value (snd (example_extract_paths
         (ArrayPattern [Identifier ''a'', AssignmentPattern (Identifier ''b'') (b_call_s ''f'' [])])
         (b_call_s ''$.get'' [Identifier ''$$item'']) (generate example_env ''$$array'')))
       = [False, True]
   \<and> (\<exists>v w1 w2. declarations_list
          (the (each_block_locals example_env pattern_block pattern_context))
        = [VariableDeclaration ''var'' (Identifier ''$$array'')
             (CallExpression (Identifier ''$.derived'') [v]),
           VariableDeclaration ''let'' (Identifier ''a'') (ArrowFunctionExpression [] w1 False),
           VariableDeclaration ''let'' (Identifier ''b'')
             (CallExpression (Identifier ''$.derived_safe_equal'')
                [ArrowFunctionExpression [] w2 False])])"
proof -
  let ?pattern = "ArrayPattern
      [Identifier ''a'', AssignmentPattern (Identifier ''b'') (b_call_s ''f'' [])]"
  obtain L where L: "each_block_locals example_env pattern_block pattern_context = Some L"
    using pattern_locals_Some(1) by blast
  have ctx: "each_context pattern_block = Some ?pattern"
    by (simp add: pattern_block_def)
  have nid: "\<not> is_identifier ?pattern"
    by simp
  define unwrapped where "unwrapped =
    (if item_reactive (flags L) then b_call_s ''$.get'' [item_of pattern_block]
     else item_of pattern_block)"
  define inserts where "inserts = fst (example_extract_paths ?pattern unwrapped
    (generate example_env ''$$array''))"
  define paths where "paths = snd (example_extract_paths ?pattern unwrapped
    (generate example_env ''$$array''))"
  have ep: "extract_paths example_env ?pattern
      (if item_reactive (flags L) then b_call_s ''$.get'' [item_of pattern_block]
       else item_of pattern_block)
      (generate example_env ''$$array'') = (inserts, paths)"
    by (simp add: example_env_fields inserts_def paths_def unwrapped_def)
  obtain i where inserts: "inserts = [i]" "insert_id i = Identifier ''$$array''"
    by (simp add: inserts_def example_extract_paths_def example_env_fields)
  obtain p q where paths: "paths = [p, q]"
    "path_node p = Identifier ''a''" "\<not> has_default_value p"
    "path_node q = Identifier ''b''" "has_default_value q"
    by (simp add: paths_def example_extract_paths_def)
  have rest: "group_binding_declaration pattern_block = []" "\<not> dev example_env"
    "generate example_env ''$$array'' 0 = ''$$array''"
    by (simp_all add: group_binding_declaration_def pattern_block_def example_env_fields)
  from destructuring_declarations [OF ctx nid L ep] obtain vs ws where
    vs: "list_all2 (\<lambda>ins v. \<exists>t u. v = fst (visit example_env t
        (b_thunk (insert_value ins) False) u)) inserts vs"
    and ws: "list_all2 (\<lambda>p w. \<exists>t u. w = fst (visit example_env t (path_expression p) u))
        paths ws"
    and ds: "declarations_list L
         = insert_declarations example_env 0 inserts vs @ leaf_declarations example_env paths ws
           @ group_binding_declaration pattern_block"
    by blast
  from vs obtain v where v: "vs = [v]"
    by (auto simp add: inserts(1) list_all2_Cons1)
  from ws obtain w1 w2 where w: "ws = [w1, w2]"
    by (auto simp add: paths(1) list_all2_Cons1)
  have "declarations_list L
        = [VariableDeclaration ''var'' (Identifier ''$$array'')
             (CallExpression (Identifier ''$.derived'') [v]),
           VariableDeclaration ''let'' (Identifier ''a'') (ArrowFunctionExpression [] w1 False),
           VariableDeclaration ''let'' (Identifier ''b'')
             (CallExpression (Identifier ''$.derived_safe_equal'')
                [ArrowFunctionExpression [] w2 False])]"
    by (simp add: ds v w inserts paths rest)
  then show ?thesis
    by (simp add: L ctx example_extract_paths_def)
qed

section \<open>Properties of the call visitor\<close>

lemma example_call_env_fields:
  "call_dev example_call_env"
  "get_rune example_call_env = example_get_rune"
  "should_proxy example_call_env = example_should_proxy"
  "call_visit example_call_env d n = n"
  "has_unknown example_call_env = example_has_unknown"
  by (simp_all add: example_call_env_def)

lemmas example_call_defs = example_get_rune_def example_should_proxy_def example_has_unknown_def

lemma recognized_members:
  "''$host'' \<in> set recognized_runes" "''$effect.tracking'' \<in> set recognized_runes"
  "''$state'' \<in> set recognized_runes" "''$state.raw'' \<in> set recognized_runes"
  "''$derived'' \<in> set recognized_runes" "''$derived.by'' \<in> set recognized_runes"
  "''$state.snapshot'' \<in> set recognized_runes" "''$effect.root'' \<in> set recognized_runes"
  "''$effect.pending'' \<in> set recognized_runes" "''$inspect'' \<in> set recognized_runes"
  "''$inspect().with'' \<in> set recognized_runes"
  unfolding recognized_runes_def by simp_all

lemma unrecognized_rune:
  assumes "\<forall>r. rune = Some r \<longrightarrow> r \<notin> set recognized_runes"
  shows "rune \<noteq> Some ''$host''" "rune \<noteq> Some ''$effect.tracking''" "rune \<noteq> Some ''$state''"
    "rune \<noteq> Some ''$state.raw''" "rune \<noteq> Some ''$derived''" "rune \<noteq> Some ''$derived.by''"
    "rune \<noteq> Some ''$state.snapshot''" "rune \<noteq> Some ''$effect.root''"
    "rune \<noteq> Some ''$effect.pending''" "rune \<noteq> Some ''$inspect''"
    "rune \<noteq> Some ''$inspect().with''"
  using assms recognized_members by blast+

lemma visitor_unrecognized:
  assumes "\<forall>r. get_rune ce (CallExpression callee arguments) sc = Some r
             \<longrightarrow> r \<notin> set recognized_runes"
  shows "CallExpression_visitor ce sc callee arguments = after_switch ce sc callee arguments"
  unfolding CallExpression_visitor_def Let_def
  using unrecognized_rune [OF assms] by simp

lemma console_condition_iff:
  "console_condition ce sc callee arguments \<longleftrightarrow>
     call_dev ce
     \<and> (\<exists>property computed.
           callee = MemberExpression (Identifier ''console'') (Identifier property) computed
           \<and> property \<in> set console_methods)
     \<and> scope_get sc ''console'' = None
     \<and> list_ex (\<lambda>arg. is_spread arg \<or> has_unknown ce sc arg) arguments"
  by (auto simp add: console_condition_def split: node.splits)

text \<open>
  C9: for a call that matches none of the runes the visitor has a case for, the call is
  rewritten to pass its arguments through \<open>$.log_if_contains_state\<close> if and only if
  development mode is on, the callee is a member of the identifier \<open>console\<close> whose
  property is an identifier named as one of the nine logging methods, \<open>console\<close> does
  not resolve in scope, and some argument is a spread element or has an unknown value;
  otherwise the visitor leaves the call to the generic lowering.
\<close>

theorem console_rewrite_iff:
  assumes "\<forall>r. get_rune ce (CallExpression callee arguments) sc = Some r
             \<longrightarrow> r \<notin> set recognized_runes"
  shows "(CallExpression_visitor ce sc callee arguments \<noteq> Next \<longleftrightarrow>
            call_dev ce
            \<and> (\<exists>property computed.
                  callee = MemberExpression (Identifier ''console'') (Identifier property) computed
                  \<and> property \<in> set console_methods)
            \<and> scope_get sc ''console'' = None
            \<and> list_ex (\<lambda>arg. is_spread arg \<or> has_unknown ce sc arg) arguments)
     \<and> (CallExpression_visitor ce sc callee arguments \<noteq> Next \<longrightarrow>
            CallExpression_visitor ce sc callee arguments
              = Replaced (console_rewrite ce callee arguments))"
proof -
  have eq: "CallExpression_visitor ce sc callee arguments = after_switch ce sc callee arguments"
    using visitor_unrecognized [OF assms] .
  show ?thesis
    unfolding eq after_switch_def
    by (auto simp add: console_condition_iff)
qed

theorem console_rewrite_iff_witness:
  "get_rune example_call_env
       (CallExpression (MemberExpression (Identifier ''console'') (Identifier ''log'') False)
          [Identifier ''count'']) example_scope = None
   \<and> CallExpression_visitor example_call_env example_scope
       (MemberExpression (Identifier ''console'') (Identifier ''log'') False) [Identifier ''count'']
     = Replaced (CallExpression (MemberExpression (Identifier ''console'') (Identifier ''log'') False)
         [SpreadElement (CallExpression (Identifier ''$.log_if_contains_state'')
            [Literal (LString ''log''), Identifier ''count''])])
   \<and> get_rune example_call_env
       (CallExpression (MemberExpression (Identifier ''console'') (Identifier ''log'') False)
          [Literal (LNumber 1)]) example_scope = None
   \<and> CallExpression_visitor example_call_env example_scope
       (MemberExpression (Identifier ''console'') (Identifier ''log'') False) [Literal (LNumber 1)]
     = Next"
proof -
  let ?callee = "MemberExpression (Identifier ''console'') (Identifier ''log'') False"
  have runes: "get_rune example_call_env (CallExpression ?callee [Identifier ''count''])
      example_scope = None"
    "get_rune example_call_env (CallExpression ?callee [Literal (LNumber 1)]) example_scope = None"
    by (simp_all add: example_call_env_fields example_call_defs)
  have console: "scope_get example_scope ''console'' = None"
    by (simp add: example_scope_def)
  have logging: "\<exists>property computed. ?callee
      = MemberExpression (Identifier ''console'') (Identifier property) computed
      \<and> property \<in> set console_methods"
    by (intro exI [of _ "''log''"] exI [of _ False]) (simp add: console_methods_def)
  have "CallExpression_visitor example_call_env example_scope ?callee [Identifier ''count'']
      \<noteq> Next"
    using console_rewrite_iff [of example_call_env ?callee "[Identifier ''count'']" example_scope]
      runes(1) console logging
    by (simp add: example_call_env_fields example_call_defs)
  then have 1: "CallExpression_visitor example_call_env example_scope ?callee [Identifier ''count'']
      = Replaced (console_rewrite example_call_env ?callee [Identifier ''count''])"
    using console_rewrite_iff [of example_call_env ?callee "[Identifier ''count'']" example_scope]
      runes(1)
    by simp
  have 2: "CallExpression_visitor example_call_env example_scope ?callee [Literal (LNumber 1)]
      = Next"
    using console_rewrite_iff [of example_call_env ?callee "[Literal (LNumber 1)]" example_scope]
      runes(2)
    by (simp add: example_call_env_fields example_call_defs)
  show ?thesis
    using 1 2 runes
    by (simp add: console_rewrite_def builder_defs example_call_env_fields example_call_defs)
qed

lemma node_not_wrapped: "v \<noteq> CallExpression c [v]"
proof
  assume "v = CallExpression c [v]"
  then have "size v = size (CallExpression c [v])"
    by simp
  then show False
    by simp
qed

lemma visitor_state:
  assumes "get_rune ce (CallExpression callee arguments) sc = Some r"
    and "r = ''$state'' \<or> r = ''$state.raw''"
  shows "CallExpression_visitor ce sc callee arguments =
           Replaced (b_call_s ''$.state'' [state_value ce sc r arguments])"
  using assms unfolding CallExpression_visitor_def Let_def by auto

text \<open>
  C10: for \<open>$state\<close> and \<open>$state.raw\<close> without an argument the visitor emits
  \<open>$.state\<close> with an undefined value and no proxy; the value is wrapped in
  \<open>$.proxy\<close> exactly when the rune is \<open>$state\<close>, an argument is present and
  \<open>should_proxy\<close> holds of it.
\<close>

theorem state_without_argument:
  assumes "get_rune ce (CallExpression callee arguments) sc = Some r"
    and "r = ''$state'' \<or> r = ''$state.raw''"
  shows "(arguments = [] \<longrightarrow>
            CallExpression_visitor ce sc callee arguments
              = Replaced (b_call_s ''$.state'' [JSUndefined]))
     \<and> (arguments \<noteq> [] \<longrightarrow>
            CallExpression_visitor ce sc callee arguments
              = Replaced (b_call_s ''$.state''
                  [if r = ''$state'' \<and> should_proxy ce (hd arguments) sc
                   then b_call_s ''$.proxy'' [call_visit ce None (hd arguments)]
                   else call_visit ce None (hd arguments)]))
     \<and> (CallExpression_visitor ce sc callee arguments
           = Replaced (b_call_s ''$.state''
               [b_call_s ''$.proxy'' [call_visit ce None (first_argument arguments)]])
         \<longleftrightarrow> r = ''$state'' \<and> arguments \<noteq> [] \<and> should_proxy ce (hd arguments) sc)"
proof (cases arguments)
  case Nil
  then show ?thesis
    unfolding visitor_state [OF assms]
    by (simp add: state_value_def builder_defs first_argument_def)
next
  case (Cons a rest)
  then show ?thesis
    unfolding visitor_state [OF assms]
    by (simp add: state_value_def builder_defs first_argument_def Let_def node_not_wrapped)
qed

theorem state_without_argument_witness:
  "get_rune example_call_env (CallExpression (Identifier ''$state'') []) example_scope
     = Some ''$state''
   \<and> CallExpression_visitor example_call_env example_scope (Identifier ''$state'') []
     = Replaced (CallExpression (Identifier ''$.state'') [JSUndefined])
   \<and> get_rune example_call_env
       (CallExpression (MemberExpression (Identifier ''$state'') (Identifier ''raw'') False) [])
       example_scope = Some ''$state.raw''
   \<and> CallExpression_visitor example_call_env example_scope
       (MemberExpression (Identifier ''$state'') (Identifier ''raw'') False) []
     = Replaced (CallExpression (Identifier ''$.state'') [JSUndefined])
   \<and> CallExpression_visitor example_call_env example_scope (Identifier ''$state'')
       [ArrayExpression []]
     = Replaced (CallExpression (Identifier ''$.state'')
         [CallExpression (Identifier ''$.proxy'') [ArrayExpression []]])
   \<and> CallExpression_visitor example_call_env example_scope
       (MemberExpression (Identifier ''$state'') (Identifier ''raw'') False) [ArrayExpression []]
     = Replaced (CallExpression (Identifier ''$.state'') [ArrayExpression []])"
proof -
  let ?raw = "MemberExpression (Identifier ''$state'') (Identifier ''raw'') False"
  have runes: "\<And>arguments. get_rune example_call_env
        (CallExpression (Identifier ''$state'') arguments) example_scope = Some ''$state''"
    "\<And>arguments. get_rune example_call_env (CallExpression ?raw arguments) example_scope
        = Some ''$state.raw''"
    by (simp_all add: example_call_env_fields example_call_defs)
  have 1: "CallExpression_visitor example_call_env example_scope (Identifier ''$state'') []
      = Replaced (CallExpression (Identifier ''$.state'') [JSUndefined])"
    using state_without_argument [OF runes(1) [of "[]"]] by (simp add: builder_defs)
  have 2: "CallExpression_visitor example_call_env example_scope ?raw []
      = Replaced (CallExpression (Identifier ''$.state'') [JSUndefined])"
    using state_without_argument [OF runes(2) [of "[]"]] by (simp add: builder_defs)
  have 3: "CallExpression_visitor example_call_env example_scope (Identifier ''$state'')
       [ArrayExpression []]
     = Replaced (CallExpression (Identifier ''$.state'')
         [CallExpression (Identifier ''$.proxy'') [ArrayExpression []]])"
    using state_without_argument [OF runes(1) [of "[ArrayExpression []]"]]
    by (simp add: builder_defs example_call_env_fields example_call_defs)
  have 4: "CallExpression_visitor example_call_env example_scope ?raw [ArrayExpression []]
     = Replaced (CallExpression (Identifier ''$.state'') [ArrayExpression []])"
    using state_without_argument [OF runes(2) [of "[ArrayExpression []]"]]
    by (simp add: builder_defs example_call_env_fields example_call_defs)
  show ?thesis
    using 1 2 3 4 runes by simp
qed


section \<open>Properties of the key function\<close>




































end
